theory Spec2Isabelle
  imports Complex_Main
begin

section \<open>Restaurant point of sale: order lifecycle and derived statistics\<close>

text \<open>
  The development embeds the order lifecycle of the point-of-sale system: the SQL trigger
  functions of the migration \<^verbatim>\<open>20250811084507_sunny_rain.sql\<close>, the tables they read and
  write, the TypeScript service methods that compute over the same rows, and the request
  handler of \<^verbatim>\<open>create-kitchen-owner/index.ts\<close>.

  Conventions of the embedding:
  \<^item> a table is the list of its rows, a row is a record of the columns the code reads or
    writes; a nullable column has an option type, \<open>None\<close> being SQL \<open>NULL\<close>;
  \<^item> a uuid is a natural number;
  \<^item> a \<open>decimal(10,2)\<close> value is an exact rational and an \<open>integer\<close> column is an
    integer; the range limits of the column types (beyond which the store raises an
    error) are outside the model;
  \<^item> a JavaScript number is a double: where the client adds amounts and compares the
    sums (the payment status), the additions round as doubles do; where it adds two
    amounts and writes the sum back to a \<open>decimal(10,2)\<close> column (the customer
    statistics), the column rounds the sum to two places, which for amounts of two
    places within the range of the column is their exact sum, and the exact sum is
    what the model writes;
  \<^item> \<open>RAISE EXCEPTION\<close> and a thrown error are the left summand of a sum type.
\<close>

type_synonym uuid = nat

subsection \<open>JavaScript numbers\<close>

text \<open>
  A JavaScript number is an IEEE 754 double. It is modelled by its value, a rational
  number with a significand of at most 53 bits. Every arithmetic operation returns the
  exact result rounded to the nearest double, ties going to the even significand;
  \<open>double_of\<close> is that rounding. \<open>binade a\<close> is the exponent \<open>e\<close> with
  \<open>2 ^ e \<le> a < 2 ^ (e + 1)\<close>; below \<open>2 ^ - 1022\<close> the doubles are the multiples of
  \<open>2 ^ - 1074\<close>. Overflow to \<open>Infinity\<close> (from \<open>2 ^ 1024\<close> on) is outside the model:
  amounts of type \<open>decimal(10,2)\<close> are below \<open>10 ^ 8\<close>.
\<close>

fun bit_length :: "nat \<Rightarrow> nat" where
  "bit_length n = (if n = 0 then 0 else Suc (bit_length (n div 2)))"

declare bit_length.simps [simp del]

definition pow2 :: "int \<Rightarrow> rat" where
  "pow2 e = (if 0 \<le> e then 2 ^ nat e else 1 / 2 ^ nat (- e))"

definition binade :: "rat \<Rightarrow> int" where
  "binade a =
     (if 1 \<le> a then int (bit_length (nat \<lfloor>a\<rfloor>)) - 1
      else - int (bit_length (nat (\<lceil>1 / a\<rceil> - 1))))"

definition round_half_even :: "rat \<Rightarrow> int" where
  "round_half_even m =
     (let f = \<lfloor>m\<rfloor>; d = m - of_int f
      in if d < 1 / 2 then f
         else if 1 / 2 < d then f + 1
         else if even f then f else f + 1)"

definition double_of :: "rat \<Rightarrow> rat" where
  "double_of x =
     (if x = 0 then 0
      else let a = \<bar>x\<bar>;
               ulp = pow2 (max (binade a - 52) (- 1074));
               m = round_half_even (a / ulp)
           in sgn x * of_int m * ulp)"

text \<open>The operator \<open>+\<close> on two numbers.\<close>

definition double_add :: "rat \<Rightarrow> rat \<Rightarrow> rat" where
  "double_add a b = double_of (a + b)"

text \<open>
  \<open>Number(v)\<close> for a value \<open>v\<close> of a \<open>decimal\<close> column: the client receives the
  decimal text of the value, which denotes the double nearest to it.
\<close>

definition Number :: "rat \<Rightarrow> rat" where
  "Number v = double_of v"

subsection \<open>Payments and the derived payment status of an order\<close>

datatype payment_status = PayPending | PayCompleted | PayFailed | PayRefunded

text \<open>A row of \<^verbatim>\<open>payments\<close>: \<open>amount decimal(10,2) NOT NULL\<close> (no \<open>CHECK\<close>, so it may
  be negative), \<open>status payment_status DEFAULT 'pending'\<close> (nullable).\<close>

record payment =
  p_order_id :: uuid
  p_amount :: rat
  p_status :: "payment_status option"

text \<open>
  \<^verbatim>\<open>PaymentService.calculateOrderPaymentStatus(payments: any[])\<close>. The argument may be
  \<open>null\<close> (\<open>None\<close>); \<open>reduce\<close> with an initial value is a left fold, and each
  \<open>sum + Number(p.amount)\<close> is an addition of doubles.
\<close>

definition calculateOrderPaymentStatus :: "payment list option \<Rightarrow> string" where
  "calculateOrderPaymentStatus payments =
     (case payments of
        None \<Rightarrow> ''pending''
      | Some ps \<Rightarrow>
          if length ps = 0 then ''pending''
          else
            let hasCompleted = list_ex (\<lambda>p. p_status p = Some PayCompleted) ps;
                hasPending = list_ex (\<lambda>p. p_status p = Some PayPending) ps;
                totalAmount = foldl (\<lambda>sum p. double_add sum (Number (p_amount p))) 0 ps;
                completedAmount =
                  foldl (\<lambda>sum p. double_add sum (Number (p_amount p))) 0
                    (filter (\<lambda>p. p_status p = Some PayCompleted) ps)
            in if completedAmount \<ge> totalAmount then ''completed''
               else if hasCompleted \<and> hasPending then ''partial''
               else ''pending'')"

text \<open>
  The sum of the amounts of a list of payments as \<open>reduce\<close> computes it: from the left,
  in doubles, starting at 0.
\<close>

definition double_sum :: "payment list \<Rightarrow> rat" where
  "double_sum ps = foldl (\<lambda>sum p. double_add sum (Number (p_amount p))) 0 ps"

text \<open>
  The rule of the specification, which compares the completed amount with the total \<open>t\<close>
  of the order, in the exact arithmetic of fixed-point decimals. It is stated here to be
  compared with the function above.
\<close>

definition spec_payment_status :: "rat \<Rightarrow> payment list \<Rightarrow> string" where
  "spec_payment_status t ps =
     (if ps = [] then ''pending''
      else if sum_list (map p_amount (filter (\<lambda>p. p_status p = Some PayCompleted) ps)) \<ge> t
        then ''completed''
      else if (\<exists>p \<in> set ps. p_status p = Some PayCompleted)
              \<and> (\<exists>p \<in> set ps. p_status p = Some PayPending) then ''partial''
      else ''pending'')"

subsection \<open>Dates and points in time\<close>

text \<open>
  A calendar date, and a \<open>timestamptz\<close> value read in the time zone of the session (UTC):
  its date and the microseconds since midnight.
\<close>

record date =
  d_year :: nat
  d_month :: nat
  d_day :: nat

record timestamptz =
  ts_date :: date
  ts_usec :: nat

definition date_less :: "date \<Rightarrow> date \<Rightarrow> bool" where
  "date_less a b \<longleftrightarrow>
     d_year a < d_year b
     \<or> (d_year a = d_year b
        \<and> (d_month a < d_month b \<or> (d_month a = d_month b \<and> d_day a < d_day b)))"

definition ts_less :: "timestamptz \<Rightarrow> timestamptz \<Rightarrow> bool" where
  "ts_less a b \<longleftrightarrow>
     date_less (ts_date a) (ts_date b) \<or> (ts_date a = ts_date b \<and> ts_usec a < ts_usec b)"

definition ts_le :: "timestamptz \<Rightarrow> timestamptz \<Rightarrow> bool" where
  "ts_le a b \<longleftrightarrow> ts_less a b \<or> a = b"

subsection \<open>Errors\<close>

text \<open>
  \<open>Exception\<close> is PL/pgSQL's \<open>RAISE EXCEPTION\<close> with its message; the violations are
  those of the named constraint; \<open>PGRST116\<close> is the error of \<open>.single()\<close> when the
  query does not return exactly one row.
\<close>

datatype error =
    Exception string
  | UniqueViolation string
  | CheckViolation string
  | NotNullViolation string
  | ForeignKeyViolation string
  | PGRST116

subsection \<open>Customers and orders\<close>

datatype order_status = Pending | Preparing | Ready | Served | Cancelled

text \<open>
  A row of \<^verbatim>\<open>customers\<close>. The aggregate columns \<open>total_orders integer DEFAULT 0\<close> and
  \<open>total_spent decimal(10,2) DEFAULT 0.00\<close> carry a value (the \<open>Customer\<close> interface
  types both as \<open>number\<close>); \<open>last_order_at\<close> is nullable.
\<close>

record customer =
  c_id :: uuid
  c_restaurant_id :: uuid
  total_orders :: int
  total_spent :: rat
  last_order_at :: "timestamptz option"

text \<open>
  A row of \<^verbatim>\<open>orders\<close>. \<open>status order_status DEFAULT 'pending'\<close> is nullable and there
  is no \<open>CHECK\<close> on \<open>total_amount decimal(10,2) NOT NULL\<close>. \<open>order_number\<close> is
  \<open>NOT NULL\<close> in a stored row, but may be null in the row handed to the
  \<open>BEFORE INSERT\<close> trigger.
\<close>

record order =
  o_id :: uuid
  o_restaurant_id :: uuid
  o_customer_id :: "uuid option"
  o_order_number :: "string option"
  o_status :: "order_status option"
  o_total_amount :: rat
  o_created_at :: "timestamptz option"
  o_updated_at :: "timestamptz option"

text \<open>\<^verbatim>\<open>update_updated_at_column()\<close>: \<open>NEW.updated_at = now()\<close>.\<close>

definition update_updated_at_column :: "timestamptz \<Rightarrow> order \<Rightarrow> order" where
  "update_updated_at_column now NEW = NEW\<lparr>o_updated_at := Some now\<rparr>"

text \<open>
  \<^verbatim>\<open>UPDATE customers SET ... WHERE id = NEW.customer_id\<close>: every row that satisfies the
  condition is replaced; a null \<open>customer_id\<close> equals no id.
\<close>

definition update_customers_where_id ::
  "uuid option \<Rightarrow> (customer \<Rightarrow> customer) \<Rightarrow> customer list \<Rightarrow> customer list" where
  "update_customers_where_id cid st cs = map (\<lambda>c. if Some (c_id c) = cid then st c else c) cs"

text \<open>
  \<^verbatim>\<open>update_customer_stats()\<close>, the trigger function, on the rows \<open>OLD\<close> and \<open>NEW\<close>
  of the updated order. \<open>GREATEST(x, 0)\<close> is \<open>max x 0\<close>.
\<close>

definition update_customer_stats :: "order \<Rightarrow> order \<Rightarrow> customer list \<Rightarrow> customer list" where
  "update_customer_stats OLD NEW cs =
     (let cs1 =
            (if o_status NEW = Some Served
                \<and> (o_status OLD = None \<or> o_status OLD \<noteq> Some Served)
             then update_customers_where_id (o_customer_id NEW)
                    (\<lambda>c. c\<lparr>total_orders := total_orders c + 1,
                           total_spent := total_spent c + o_total_amount NEW,
                           last_order_at := o_updated_at NEW\<rparr>) cs
             else cs);
          cs2 =
            (if o_status OLD = Some Served \<and> o_status NEW = Some Cancelled
             then update_customers_where_id (o_customer_id NEW)
                    (\<lambda>c. c\<lparr>total_orders := max (total_orders c - 1) 0,
                           total_spent := max (total_spent c - o_total_amount NEW) 0\<rparr>) cs1
             else cs1)
      in cs2)"

text \<open>
  \<^verbatim>\<open>update_customer_stats_trigger\<close>: \<open>AFTER UPDATE ON orders FOR EACH ROW
  WHEN (NEW.customer_id IS NOT NULL)\<close>.
\<close>

definition update_customer_stats_trigger ::
  "order \<Rightarrow> order \<Rightarrow> customer list \<Rightarrow> customer list" where
  "update_customer_stats_trigger OLD NEW cs =
     (if o_customer_id NEW \<noteq> None then update_customer_stats OLD NEW cs else cs)"

text \<open>
  A sequence of order updates as the aggregator sees it: the pairs \<open>(OLD, NEW)\<close> for which
  the trigger is evaluated, in order.
\<close>

fun run_transitions :: "(order \<times> order) list \<Rightarrow> customer list \<Rightarrow> customer list" where
  "run_transitions [] cs = cs"
| "run_transitions ((OLD, NEW) # ts) cs =
     run_transitions ts (update_customer_stats_trigger OLD NEW cs)"

subsection \<open>The store and its statements on orders and customers\<close>

record database =
  customers :: "customer list"
  orders :: "order list"

text \<open>
  \<^verbatim>\<open>UPDATE orders SET ... WHERE id = oid\<close> at time \<open>now\<close>, the \<open>SET\<close> clause being the
  function \<open>st\<close> on the row. For each row with that id the \<open>BEFORE UPDATE\<close> trigger
  \<^verbatim>\<open>update_orders_updated_at\<close> sets \<open>updated_at\<close>, the row is replaced, and the
  \<open>AFTER UPDATE\<close> trigger \<^verbatim>\<open>update_customer_stats_trigger\<close> runs on the old and the new row.
\<close>

fun update_orders_rows ::
  "timestamptz \<Rightarrow> uuid \<Rightarrow> (order \<Rightarrow> order) \<Rightarrow> order list \<Rightarrow> customer list
     \<Rightarrow> order list \<times> customer list" where
  "update_orders_rows now oid st [] cs = ([], cs)"
| "update_orders_rows now oid st (OLD # rows) cs =
     (if o_id OLD = oid then
        (let NEW = update_updated_at_column now (st OLD);
             (rows', cs') = update_orders_rows now oid st rows (update_customer_stats_trigger OLD NEW cs)
         in (NEW # rows', cs'))
      else
        (let (rows', cs') = update_orders_rows now oid st rows cs in (OLD # rows', cs')))"

definition sql_update_orders ::
  "timestamptz \<Rightarrow> uuid \<Rightarrow> (order \<Rightarrow> order) \<Rightarrow> database \<Rightarrow> database" where
  "sql_update_orders now oid st db =
     (let (rows', cs') = update_orders_rows now oid st (orders db) (customers db)
      in db\<lparr>customers := cs', orders := rows'\<rparr>)"

text \<open>
  \<^verbatim>\<open>OrderService.updateOrder\<close> and \<^verbatim>\<open>OrderService.updateOrderStatus\<close>:
  \<open>.update(updates).eq('id', orderId).select().single()\<close> throws, and the statement is
  rolled back, unless exactly one row was updated.
\<close>

definition updateOrder ::
  "timestamptz \<Rightarrow> uuid \<Rightarrow> (order \<Rightarrow> order) \<Rightarrow> database \<Rightarrow> error + database" where
  "updateOrder now orderId updates db =
     (if length (filter (\<lambda>r. o_id r = orderId) (orders db)) = 1
      then Inr (sql_update_orders now orderId updates db)
      else Inl PGRST116)"

definition updateOrderStatus ::
  "timestamptz \<Rightarrow> uuid \<Rightarrow> order_status \<Rightarrow> database \<Rightarrow> error + database" where
  "updateOrderStatus now orderId status db =
     updateOrder now orderId (\<lambda>r. r\<lparr>o_status := Some status\<rparr>) db"

text \<open>
  \<^verbatim>\<open>CustomerService\<close>. \<^verbatim>\<open>updates: Partial<Customer>\<close> names the columns to set; an absent
  key (\<open>None\<close>) leaves the column as it is. The amount that
  \<^verbatim>\<open>updateCustomerOrderStats\<close> adds is an amount of two places, and the sum is the value
  of the column \<open>total_spent\<close> after the write.
\<close>

record customer_updates =
  upd_total_orders :: "int option"
  upd_total_spent :: "rat option"
  upd_last_order_at :: "timestamptz option"

definition apply_customer_updates :: "customer_updates \<Rightarrow> customer \<Rightarrow> customer" where
  "apply_customer_updates u c =
     c\<lparr>total_orders := (case upd_total_orders u of None \<Rightarrow> total_orders c | Some n \<Rightarrow> n),
       total_spent := (case upd_total_spent u of None \<Rightarrow> total_spent c | Some s \<Rightarrow> s),
       last_order_at :=
         (case upd_last_order_at u of None \<Rightarrow> last_order_at c | Some t \<Rightarrow> Some t)\<rparr>"

definition getCustomerById :: "uuid \<Rightarrow> database \<Rightarrow> error + customer" where
  "getCustomerById customerId db =
     (case filter (\<lambda>c. c_id c = customerId) (customers db) of
        [c] \<Rightarrow> Inr c
      | _ \<Rightarrow> Inl PGRST116)"

definition updateCustomer :: "uuid \<Rightarrow> customer_updates \<Rightarrow> database \<Rightarrow> error + database" where
  "updateCustomer customerId updates db =
     (if length (filter (\<lambda>c. c_id c = customerId) (customers db)) = 1
      then Inr (db\<lparr>customers :=
                  update_customers_where_id (Some customerId) (apply_customer_updates updates)
                    (customers db)\<rparr>)
      else Inl PGRST116)"

definition updateCustomerOrderStats ::
  "timestamptz \<Rightarrow> uuid \<Rightarrow> rat \<Rightarrow> database \<Rightarrow> error + database" where
  "updateCustomerOrderStats now customerId orderAmount db =
     (case getCustomerById customerId db of
        Inl e \<Rightarrow> Inl e
      | Inr customer \<Rightarrow>
          updateCustomer customerId
            \<lparr>upd_total_orders = Some (total_orders customer + 1),
             upd_total_spent = Some (total_spent customer + orderAmount),
             upd_last_order_at = Some now\<rparr> db)"

subsection \<open>Order numbers\<close>

text \<open>The decimal digits of a natural number: \<open>(n)::text\<close> in SQL, \<open>String(n)\<close> in JavaScript.\<close>

fun string_of_nat :: "nat \<Rightarrow> string" where
  "string_of_nat n =
     (if n < 10 then [''0123456789'' ! n]
      else string_of_nat (n div 10) @ [''0123456789'' ! (n mod 10)])"

declare string_of_nat.simps [simp del]

text \<open>
  PostgreSQL's \<open>LPAD(s, n, fill)\<close> returns exactly \<open>n\<close> characters: a longer string is
  truncated on the right. JavaScript's \<open>s.padStart(n, fill)\<close> returns a longer string
  as it is. The fill is the one character the callers pass.
\<close>

definition LPAD :: "string \<Rightarrow> nat \<Rightarrow> char \<Rightarrow> string" where
  "LPAD s n fill = (if n \<le> length s then take n s else replicate (n - length s) fill @ s)"

definition padStart :: "string \<Rightarrow> nat \<Rightarrow> char \<Rightarrow> string" where
  "padStart s n fill = (if n \<le> length s then s else replicate (n - length s) fill @ s)"

text \<open>
  \<open>to_char(d, 'YYYYMMDD')\<close>: the year in at least four digits, month and day in two.
\<close>

definition to_char_YYYYMMDD :: "date \<Rightarrow> string" where
  "to_char_YYYYMMDD d =
     padStart (string_of_nat (d_year d)) 4 CHR ''0''
     @ padStart (string_of_nat (d_month d)) 2 CHR ''0''
     @ padStart (string_of_nat (d_day d)) 2 CHR ''0''"

text \<open>
  \<open>Date.prototype.toISOString()\<close>: \<open>YYYY-MM-DDTHH:mm:ss.sssZ\<close>, with a signed six-digit
  year beyond 9999. A \<open>Date\<close> counts milliseconds.
\<close>

definition toISOString :: "timestamptz \<Rightarrow> string" where
  "toISOString t =
     (let d = ts_date t; ms = ts_usec t div 1000 in
      (if d_year d \<le> 9999 then padStart (string_of_nat (d_year d)) 4 CHR ''0''
       else ''+'' @ padStart (string_of_nat (d_year d)) 6 CHR ''0'')
      @ ''-'' @ padStart (string_of_nat (d_month d)) 2 CHR ''0''
      @ ''-'' @ padStart (string_of_nat (d_day d)) 2 CHR ''0''
      @ ''T'' @ padStart (string_of_nat (ms div 3600000)) 2 CHR ''0''
      @ '':'' @ padStart (string_of_nat (ms div 60000 mod 60)) 2 CHR ''0''
      @ '':'' @ padStart (string_of_nat (ms div 1000 mod 60)) 2 CHR ''0''
      @ ''.'' @ padStart (string_of_nat (ms mod 1000)) 3 CHR ''0''
      @ ''Z'')"

text \<open>
  \<^verbatim>\<open>generate_order_number(restaurant_uuid)\<close>, with \<open>CURRENT_DATE\<close> as an argument and the
  table \<^verbatim>\<open>orders\<close> it counts in. \<open>DATE(created_at) = CURRENT_DATE\<close> is not true of a null
  \<open>created_at\<close>.
\<close>

definition generate_order_number :: "uuid \<Rightarrow> date \<Rightarrow> order list \<Rightarrow> string" where
  "generate_order_number restaurant_uuid CURRENT_DATE rows =
     (let date_prefix = to_char_YYYYMMDD CURRENT_DATE;
          order_count =
            length (filter (\<lambda>r. o_restaurant_id r = restaurant_uuid
                                \<and> map_option ts_date (o_created_at r) = Some CURRENT_DATE) rows);
          order_number = date_prefix @ ''-'' @ LPAD (string_of_nat (order_count + 1)) 4 CHR ''0''
      in order_number)"

text \<open>
  \<^verbatim>\<open>OrderService.generateOrderNumber(restaurantId)\<close>, with \<open>new Date()\<close> as the argument
  \<open>today\<close>. The two bounds of the query are the texts \<open>T00:00:00.000Z\<close> and
  \<open>T23:59:59.999Z\<close> appended to the first ten characters of the ISO string; they are
  read here as the points in time they denote on the date of \<open>today\<close> (which they do
  up to the year 9999, where the ten characters are the date), 23:59:59.999 being
  86399999000 microseconds after midnight. A failed query, which the method rethrows, is
  a failure of the transport and not part of the model.
\<close>

definition generateOrderNumber :: "uuid \<Rightarrow> timestamptz \<Rightarrow> order list \<Rightarrow> string" where
  "generateOrderNumber restaurantId today rows =
     (let datePrefix = filter (\<lambda>c. c \<noteq> CHR ''-'') (take 10 (toISOString today));
          gte_bound = \<lparr>ts_date = ts_date today, ts_usec = 0\<rparr>;
          lt_bound = \<lparr>ts_date = ts_date today, ts_usec = 86399999000\<rparr>;
          count =
            length (filter (\<lambda>r. o_restaurant_id r = restaurantId
                                \<and> (case o_created_at r of
                                      None \<Rightarrow> False
                                    | Some t \<Rightarrow> ts_le gte_bound t \<and> ts_less t lt_bound)) rows);
          orderNumber = datePrefix @ ''-'' @ padStart (string_of_nat (count + 1)) 4 CHR ''0''
      in orderNumber)"

text \<open>\<^verbatim>\<open>set_order_number()\<close>, the \<open>BEFORE INSERT\<close> trigger function of \<^verbatim>\<open>orders\<close>.\<close>

definition set_order_number :: "date \<Rightarrow> order \<Rightarrow> order list \<Rightarrow> order" where
  "set_order_number CURRENT_DATE NEW rows =
     (if o_order_number NEW = None \<or> o_order_number NEW = Some []
      then NEW\<lparr>o_order_number :=
                 Some (generate_order_number (o_restaurant_id NEW) CURRENT_DATE rows)\<rparr>
      else NEW)"

text \<open>
  \<^verbatim>\<open>INSERT INTO orders\<close> of the row \<open>NEW\<close> (its column defaults filled in) at time
  \<open>now\<close>: the \<open>BEFORE INSERT\<close> trigger \<^verbatim>\<open>set_order_number_trigger\<close>, then the constraints
  of the table on the columns of the model, then the row is stored. No trigger on
  \<^verbatim>\<open>orders\<close> fires \<open>AFTER INSERT\<close>.
\<close>

definition sql_insert_order :: "timestamptz \<Rightarrow> order \<Rightarrow> database \<Rightarrow> error + database" where
  "sql_insert_order now NEW db =
     (let NEW' = set_order_number (ts_date now) NEW (orders db) in
      if o_order_number NEW' = None then Inl (NotNullViolation ''order_number'')
      else if list_ex (\<lambda>r. o_id r = o_id NEW') (orders db)
        then Inl (UniqueViolation ''orders_pkey'')
      else if list_ex (\<lambda>r. o_order_number r = o_order_number NEW') (orders db)
        then Inl (UniqueViolation ''orders_order_number_key'')
      else if (case o_customer_id NEW' of
                 None \<Rightarrow> False
               | Some k \<Rightarrow> \<not> list_ex (\<lambda>c. c_id c = k) (customers db))
        then Inl (ForeignKeyViolation ''orders_customer_id_fkey'')
      else Inr (db\<lparr>orders := orders db @ [NEW']\<rparr>))"

text \<open>
  \<^verbatim>\<open>OrderService.createOrder(orderData)\<close>: the insert of the columns of
  \<open>CreateOrderData\<close>; \<open>id\<close>, \<open>status\<close>, \<open>created_at\<close> and \<open>updated_at\<close> take their
  defaults (\<open>gen_random_uuid()\<close> is the argument \<open>new_id\<close>).
\<close>

record CreateOrderData =
  cod_restaurant_id :: uuid
  cod_customer_id :: "uuid option"
  cod_order_number :: string
  cod_total_amount :: rat

definition createOrder ::
  "uuid \<Rightarrow> timestamptz \<Rightarrow> CreateOrderData \<Rightarrow> database \<Rightarrow> error + database" where
  "createOrder new_id now orderData db =
     sql_insert_order now
       \<lparr>o_id = new_id, o_restaurant_id = cod_restaurant_id orderData,
        o_customer_id = cod_customer_id orderData,
        o_order_number = Some (cod_order_number orderData),
        o_status = Some Pending, o_total_amount = cod_total_amount orderData,
        o_created_at = Some now, o_updated_at = Some now\<rparr> db"

subsection \<open>Order items and their validation\<close>

record menu_item =
  mi_id :: uuid
  mi_restaurant_id :: uuid

record combo_meal =
  cm_id :: uuid
  cm_restaurant_id :: uuid

record order_item =
  oi_id :: uuid
  oi_order_id :: uuid
  oi_menu_item_id :: "uuid option"
  oi_combo_meal_id :: "uuid option"
  oi_quantity :: int

text \<open>
  \<^verbatim>\<open>validate_order_item()\<close>, the trigger function, on the row \<open>NEW\<close> and the three tables
  it reads. \<open>NOT EXISTS (SELECT 1 FROM menu_items mi JOIN orders o ON o.id = NEW.order_id
  WHERE mi.id = NEW.menu_item_id AND mi.restaurant_id = o.restaurant_id)\<close> holds when
  no pair of a menu item and an order satisfies the three conditions. Returning \<open>NEW\<close>
  lets the statement go on with the row as it is.
\<close>

definition validate_order_item ::
  "menu_item list \<Rightarrow> combo_meal list \<Rightarrow> order list \<Rightarrow> order_item \<Rightarrow> error + order_item" where
  "validate_order_item menu_items combo_meals rows NEW =
     (if (oi_menu_item_id NEW = None \<and> oi_combo_meal_id NEW = None)
         \<or> (oi_menu_item_id NEW \<noteq> None \<and> oi_combo_meal_id NEW \<noteq> None)
      then Inl (Exception
        ''Order item must reference either a menu item or combo meal, but not both'')
      else if oi_menu_item_id NEW \<noteq> None
          \<and> \<not> list_ex (\<lambda>mi. list_ex (\<lambda>ord. o_id ord = oi_order_id NEW
                                    \<and> Some (mi_id mi) = oi_menu_item_id NEW
                                    \<and> mi_restaurant_id mi = o_restaurant_id ord) rows) menu_items
      then Inl (Exception ''Menu item does not belong to the same restaurant as the order'')
      else if oi_combo_meal_id NEW \<noteq> None
          \<and> \<not> list_ex (\<lambda>cm. list_ex (\<lambda>ord. o_id ord = oi_order_id NEW
                                    \<and> Some (cm_id cm) = oi_combo_meal_id NEW
                                    \<and> cm_restaurant_id cm = o_restaurant_id ord) rows) combo_meals
      then Inl (Exception ''Combo meal does not belong to the same restaurant as the order'')
      else Inr NEW)"

text \<open>The table constraint \<^verbatim>\<open>check_item_reference\<close> of \<^verbatim>\<open>order_items\<close>.\<close>

definition check_item_reference :: "order_item \<Rightarrow> bool" where
  "check_item_reference r \<longleftrightarrow>
     (oi_menu_item_id r \<noteq> None \<and> oi_combo_meal_id r = None)
     \<or> (oi_menu_item_id r = None \<and> oi_combo_meal_id r \<noteq> None)"

text \<open>
  The row-level part of a write to \<^verbatim>\<open>order_items\<close>: the trigger
  \<^verbatim>\<open>validate_order_item_trigger\<close> (\<open>BEFORE INSERT OR UPDATE ... FOR EACH ROW\<close>) runs first,
  then the \<open>CHECK\<close> constraints are tested on the row it returned.
\<close>

definition before_write_order_item ::
  "menu_item list \<Rightarrow> combo_meal list \<Rightarrow> order list \<Rightarrow> order_item \<Rightarrow> error + order_item" where
  "before_write_order_item menu_items combo_meals rows NEW =
     (case validate_order_item menu_items combo_meals rows NEW of
        Inl e \<Rightarrow> Inl e
      | Inr NEW' \<Rightarrow>
          if \<not> 0 < oi_quantity NEW' then Inl (CheckViolation ''order_items_quantity_check'')
          else if \<not> check_item_reference NEW' then Inl (CheckViolation ''check_item_reference'')
          else Inr NEW')"

text \<open>\<^verbatim>\<open>INSERT INTO order_items\<close>: the new table, or the error that aborts the statement.\<close>

definition sql_insert_order_item ::
  "menu_item list \<Rightarrow> combo_meal list \<Rightarrow> order list \<Rightarrow> order_item \<Rightarrow> order_item list
     \<Rightarrow> error + order_item list" where
  "sql_insert_order_item menu_items combo_meals rows NEW order_items =
     (case before_write_order_item menu_items combo_meals rows NEW of
        Inl e \<Rightarrow> Inl e
      | Inr NEW' \<Rightarrow> Inr (order_items @ [NEW']))"

text \<open>
  \<^verbatim>\<open>UPDATE order_items SET ... WHERE id = itemId\<close>: an error on any row aborts the whole
  statement.
\<close>

fun sql_update_order_items ::
  "menu_item list \<Rightarrow> combo_meal list \<Rightarrow> order list \<Rightarrow> uuid \<Rightarrow> (order_item \<Rightarrow> order_item)
     \<Rightarrow> order_item list \<Rightarrow> error + order_item list" where
  "sql_update_order_items menu_items combo_meals rows itemId st [] = Inr []"
| "sql_update_order_items menu_items combo_meals rows itemId st (r # rs) =
     (if oi_id r = itemId then
        (case before_write_order_item menu_items combo_meals rows (st r) of
           Inl e \<Rightarrow> Inl e
         | Inr NEW' \<Rightarrow>
             (case sql_update_order_items menu_items combo_meals rows itemId st rs of
                Inl e \<Rightarrow> Inl e
              | Inr rs' \<Rightarrow> Inr (NEW' # rs')))
      else
        (case sql_update_order_items menu_items combo_meals rows itemId st rs of
           Inl e \<Rightarrow> Inl e
         | Inr rs' \<Rightarrow> Inr (r # rs')))"

subsection \<open>Business hours\<close>

text \<open>
  A \<open>time\<close> value is the number of microseconds since midnight. A row of
  \<^verbatim>\<open>business_hours\<close>: \<open>open_time\<close>, \<open>close_time\<close> and \<open>is_closed boolean DEFAULT false\<close>
  are nullable.
\<close>

type_synonym time = nat

record business_hours =
  bh_revenue_center_id :: uuid
  bh_day_of_week :: nat
  bh_open_time :: "time option"
  bh_close_time :: "time option"
  bh_is_closed :: "bool option"

text \<open>
  The point in time of a check, resolved in the time zone of the evaluator: the day of the
  week (\<open>EXTRACT(DOW FROM check_time)\<close>, \<open>checkTime.getDay()\<close>; 0 is Sunday) and the
  time of day (\<open>check_time::time\<close>).
\<close>

record check_time =
  ct_day_of_week :: nat
  ct_time :: time

text \<open>
  \<^verbatim>\<open>is_revenue_center_open(center_id, check_time)\<close>. \<open>SELECT * INTO business_hour\<close> takes
  the first row of the query; \<open>IF business_hour.is_closed\<close> is taken for \<open>true\<close> only.
\<close>

definition is_revenue_center_open :: "business_hours list \<Rightarrow> uuid \<Rightarrow> check_time \<Rightarrow> bool" where
  "is_revenue_center_open rows center_id check_time =
     (let day_of_week_num = ct_day_of_week check_time;
          current_time = ct_time check_time
      in case find (\<lambda>b. bh_revenue_center_id b = center_id
                         \<and> bh_day_of_week b = day_of_week_num) rows of
           None \<Rightarrow> False
         | Some business_hour \<Rightarrow>
             if bh_is_closed business_hour = Some True then False
             else (case (bh_open_time business_hour, bh_close_time business_hour) of
                     (Some open_time, Some close_time) \<Rightarrow>
                       if close_time < open_time
                       then current_time \<ge> open_time \<or> current_time \<le> close_time
                       else current_time \<ge> open_time \<and> current_time \<le> close_time
                   | _ \<Rightarrow> False))"

text \<open>
  The text of a \<open>time\<close> value as the store sends it to the client: \<open>HH:MM:SS\<close>,
  followed by the fraction of the second without trailing zeros when there is one.
\<close>

definition time_out :: "time \<Rightarrow> string" where
  "time_out t =
     padStart (string_of_nat (t div 3600000000)) 2 CHR ''0''
     @ '':'' @ padStart (string_of_nat (t div 60000000 mod 60)) 2 CHR ''0''
     @ '':'' @ padStart (string_of_nat (t div 1000000 mod 60)) 2 CHR ''0''
     @ (if t mod 1000000 = 0 then []
        else ''.'' @ rev (dropWhile (\<lambda>c. c = CHR ''0'')
                           (rev (padStart (string_of_nat (t mod 1000000)) 6 CHR ''0''))))"

text \<open>
  \<open>Date.prototype.toTimeString()\<close>: \<open>HH:MM:SS\<close> and the name of the time zone (here
  that of UTC; the method below reads the first five characters only).
\<close>

definition toTimeString :: "check_time \<Rightarrow> string" where
  "toTimeString checkTime =
     padStart (string_of_nat (ct_time checkTime div 3600000000)) 2 CHR ''0''
     @ '':'' @ padStart (string_of_nat (ct_time checkTime div 60000000 mod 60)) 2 CHR ''0''
     @ '':'' @ padStart (string_of_nat (ct_time checkTime div 1000000 mod 60)) 2 CHR ''0''
     @ '' GMT+0000 (Coordinated Universal Time)''"

text \<open>
  The comparison of two JavaScript strings by \<open><\<close>: the first differing character
  decides, and a proper prefix is smaller. \<open>a >= b\<close> is \<open>\<not> a < b\<close> and \<open>a <= b\<close>
  is \<open>\<not> b < a\<close>.
\<close>

fun js_string_less :: "string \<Rightarrow> string \<Rightarrow> bool" where
  "js_string_less [] [] = False"
| "js_string_less [] (y # ys) = True"
| "js_string_less (x # xs) [] = False"
| "js_string_less (x # xs) (y # ys) =
     ((of_char x :: nat) < of_char y \<or> (x = y \<and> js_string_less xs ys))"

text \<open>
  \<^verbatim>\<open>BusinessHoursService.isRevenueCenterOpen(revenueCenterId, dateTime)\<close>. \<open>.single()\<close>
  gives an error unless exactly one row is found; \<open>data.open_time\<close> and
  \<open>data.close_time\<close> are the texts of the times, and an absent or empty text is falsy.
\<close>

definition isRevenueCenterOpen :: "business_hours list \<Rightarrow> uuid \<Rightarrow> check_time \<Rightarrow> bool" where
  "isRevenueCenterOpen rows revenueCenterId checkTime =
     (let dayOfWeek = ct_day_of_week checkTime;
          currentTime = take 5 (toTimeString checkTime)
      in case filter (\<lambda>b. bh_revenue_center_id b = revenueCenterId
                           \<and> bh_day_of_week b = dayOfWeek) rows of
           [data] \<Rightarrow>
             if bh_is_closed data = Some True then False
             else (case (map_option time_out (bh_open_time data),
                         map_option time_out (bh_close_time data)) of
                     (Some open_time, Some close_time) \<Rightarrow>
                       if open_time = [] \<or> close_time = [] then False
                       else if js_string_less close_time open_time
                       then \<not> js_string_less currentTime open_time
                            \<or> \<not> js_string_less close_time currentTime
                       else \<not> js_string_less currentTime open_time
                            \<and> \<not> js_string_less close_time currentTime
                   | _ \<Rightarrow> False)
         | _ \<Rightarrow> False)"

subsection \<open>Provisioning of kitchen owners\<close>

text \<open>
  The request handler of \<^verbatim>\<open>create-kitchen-owner/index.ts\<close> over the three stores it
  writes: the table \<^verbatim>\<open>kitchen_owners\<close> (\<open>email text UNIQUE NOT NULL\<close>,
  \<open>subscription_plan\<close> an enum), the accounts of the identity provider, and the table
  \<^verbatim>\<open>users\<close> (\<open>email\<close> unique).
\<close>

record kitchen_owner =
  ko_id :: uuid
  ko_user_id :: "uuid option"
  ko_email :: string
  ko_full_name :: string
  ko_subscription_plan :: string
  ko_payment_id :: string
  ko_subscription_amount :: rat
  ko_subscription_expires_at :: string
  ko_password_hash :: string
  ko_is_setup_completed :: bool

record auth_user =
  au_id :: uuid
  au_email :: string
  au_password :: string
  au_email_confirm :: bool
  au_full_name :: string
  au_role :: string

record app_user =
  u_auth_user_id :: uuid
  u_email :: string
  u_full_name :: string
  u_role :: string

record backend =
  kitchen_owners :: "kitchen_owner list"
  auth_users :: "auth_user list"
  users :: "app_user list"

text \<open>
  The body of the request: a field that is absent or \<open>null\<close> is \<open>None\<close>. The request
  itself: its method, and its body when it parses as JSON.
\<close>

record CreateKitchenOwnerRequest =
  email :: "string option"
  full_name :: "string option"
  subscription_plan :: "string option"
  payment_id :: "string option"
  subscription_amount :: "rat option"
  subscription_expires_at :: "string option"

record request =
  req_method :: string
  req_json :: "CreateKitchenOwnerRequest option"

text \<open>
  What the handler draws from outside: the password of \<open>generateRandomPassword()\<close>, its
  SHA-256 digest in hexadecimal, and the identifiers that the store and the identity
  provider give to the new rows.
\<close>

record environment =
  randomPassword :: string
  hashedPassword :: string
  new_owner_id :: uuid
  new_auth_user_id :: uuid

datatype response_body =
    NoBody
  | ErrorBody string
  | Created uuid string string string string

record response =
  status :: nat
  body :: response_body

text \<open>\<open>!requestData[field]\<close>: an absent field, an empty text and the number 0 are falsy.\<close>

definition falsy_text :: "string option \<Rightarrow> bool" where
  "falsy_text v \<longleftrightarrow> v = None \<or> v = Some []"

definition falsy_number :: "rat option \<Rightarrow> bool" where
  "falsy_number v \<longleftrightarrow> v = None \<or> v = Some 0"

text \<open>The loop over \<open>requiredFields\<close>: the first field that is falsy, if any.\<close>

definition missing_required_field :: "CreateKitchenOwnerRequest \<Rightarrow> string option" where
  "missing_required_field requestData =
     (if falsy_text (email requestData) then Some ''email''
      else if falsy_text (full_name requestData) then Some ''full_name''
      else if falsy_text (subscription_plan requestData) then Some ''subscription_plan''
      else if falsy_text (payment_id requestData) then Some ''payment_id''
      else if falsy_number (subscription_amount requestData) then Some ''subscription_amount''
      else if falsy_text (subscription_expires_at requestData)
        then Some ''subscription_expires_at''
      else None)"

text \<open>\<open>.single()\<close>: the row when the query returns exactly one, otherwise no data.\<close>

definition single :: "'a list \<Rightarrow> 'a option" where
  "single rows = (case rows of [r] \<Rightarrow> Some r | _ \<Rightarrow> None)"

text \<open>
  The insert into \<^verbatim>\<open>kitchen_owners\<close> fails on a second row with the same id or email and on
  a plan outside the enum. \<open>auth.admin.createUser\<close> fails on an email that already has an
  account. The insert into \<^verbatim>\<open>users\<close> fails on an email that is already there.
\<close>

definition insert_kitchen_owner :: "kitchen_owner \<Rightarrow> kitchen_owner list \<Rightarrow> kitchen_owner list option" where
  "insert_kitchen_owner row rows =
     (if list_ex (\<lambda>r. ko_id r = ko_id row \<or> ko_email r = ko_email row) rows
         \<or> ko_subscription_plan row \<notin> set [''basic'', ''premium'', ''enterprise'']
      then None else Some (rows @ [row]))"

definition createUser :: "auth_user \<Rightarrow> auth_user list \<Rightarrow> auth_user list option" where
  "createUser account accounts =
     (if list_ex (\<lambda>a. au_email a = au_email account \<or> au_id a = au_id account) accounts
      then None else Some (accounts @ [account]))"

definition insert_user :: "app_user \<Rightarrow> app_user list \<Rightarrow> app_user list option" where
  "insert_user row rows =
     (if list_ex (\<lambda>r. u_email r = u_email row) rows then None else Some (rows @ [row]))"

text \<open>
  The handler proper, from the request that passed the check of the required fields on:
  the values of the fields are \<open>e\<close> (email), \<open>n\<close> (full name), \<open>plan\<close>, \<open>pay\<close>,
  \<open>amount\<close> and \<open>expires\<close>.
\<close>

definition provision ::
  "environment \<Rightarrow> string \<Rightarrow> string \<Rightarrow> string \<Rightarrow> string \<Rightarrow> rat \<Rightarrow> string \<Rightarrow> backend
     \<Rightarrow> response \<times> backend" where
  "provision env e n plan pay amount expires s =
     (case single (filter (\<lambda>r. ko_email r = e) (kitchen_owners s)) of
        Some existingOwner \<Rightarrow>
          (\<lparr>status = 409, body = ErrorBody ''Kitchen owner with this email already exists''\<rparr>, s)
      | None \<Rightarrow>
          (let kitchenOwner =
                 \<lparr>ko_id = new_owner_id env, ko_user_id = None, ko_email = e, ko_full_name = n,
                  ko_subscription_plan = plan, ko_payment_id = pay,
                  ko_subscription_amount = amount, ko_subscription_expires_at = expires,
                  ko_password_hash = hashedPassword env, ko_is_setup_completed = False\<rparr>
           in case insert_kitchen_owner kitchenOwner (kitchen_owners s) of
                None \<Rightarrow>
                  (\<lparr>status = 500, body = ErrorBody ''Failed to create kitchen owner''\<rparr>, s)
              | Some owners1 \<Rightarrow>
                  (case createUser
                          \<lparr>au_id = new_auth_user_id env, au_email = e,
                           au_password = randomPassword env, au_email_confirm = True,
                           au_full_name = n, au_role = ''kitchen_owner''\<rparr> (auth_users s) of
                     None \<Rightarrow>
                       (\<lparr>status = 500, body = ErrorBody ''Failed to create user account''\<rparr>,
                        s\<lparr>kitchen_owners :=
                            filter (\<lambda>r. ko_id r \<noteq> ko_id kitchenOwner) owners1\<rparr>)
                   | Some accounts1 \<Rightarrow>
                       (let users1 =
                              (case insert_user
                                      \<lparr>u_auth_user_id = new_auth_user_id env, u_email = e,
                                       u_full_name = n, u_role = ''kitchen_owner''\<rparr> (users s) of
                                 None \<Rightarrow> users s
                               | Some rows \<Rightarrow> rows);
                            owners2 =
                              map (\<lambda>r. if ko_id r = ko_id kitchenOwner
                                        then r\<lparr>ko_user_id := Some (new_auth_user_id env)\<rparr>
                                        else r) owners1
                        in (\<lparr>status = 201,
                             body = Created (ko_id kitchenOwner) e n plan (randomPassword env)\<rparr>,
                            \<lparr>kitchen_owners = owners2, auth_users = accounts1,
                             users = users1\<rparr>)))))"

text \<open>
  The handler of \<open>Deno.serve\<close>. A body that does not parse raises in \<open>req.json()\<close>
  and is answered by the \<open>catch\<close> clause.
\<close>

definition create_kitchen_owner :: "environment \<Rightarrow> request \<Rightarrow> backend \<Rightarrow> response \<times> backend" where
  "create_kitchen_owner env req s =
     (if req_method req = ''OPTIONS'' then (\<lparr>status = 200, body = NoBody\<rparr>, s)
      else if req_method req \<noteq> ''POST''
        then (\<lparr>status = 405, body = ErrorBody ''Method not allowed''\<rparr>, s)
      else case req_json req of
             None \<Rightarrow> (\<lparr>status = 500, body = ErrorBody ''Internal server error''\<rparr>, s)
           | Some requestData \<Rightarrow>
               (case missing_required_field requestData of
                  Some field \<Rightarrow>
                    (\<lparr>status = 400, body = ErrorBody (''Missing required field: '' @ field)\<rparr>, s)
                | None \<Rightarrow>
                    (case (email requestData, full_name requestData,
                           subscription_plan requestData, payment_id requestData,
                           subscription_amount requestData,
                           subscription_expires_at requestData) of
                       (Some e, Some n, Some plan, Some pay, Some amount, Some expires) \<Rightarrow>
                         provision env e n plan pay amount expires s
                     | _ \<Rightarrow>
                         (\<lparr>status = 500, body = ErrorBody ''Internal server error''\<rparr>, s))))"

subsection \<open>Statistics that are never negative\<close>

definition nonneg_stats :: "customer list \<Rightarrow> bool" where
  "nonneg_stats cs \<longleftrightarrow> list_all (\<lambda>c. 0 \<le> total_orders c \<and> 0 \<le> total_spent c) cs"

subsection \<open>Example data\<close>

definition ex_date :: date where
  "ex_date = \<lparr>d_year = 2025, d_month = 8, d_day = 11\<rparr>"

definition ex_t0 :: timestamptz where
  "ex_t0 = \<lparr>ts_date = ex_date, ts_usec = 43200000000\<rparr>"

definition ex_t1 :: timestamptz where
  "ex_t1 = \<lparr>ts_date = ex_date, ts_usec = 45000000000\<rparr>"

definition ex_t2 :: timestamptz where
  "ex_t2 = \<lparr>ts_date = ex_date, ts_usec = 46800000000\<rparr>"

definition ex_customer :: customer where
  "ex_customer = \<lparr>c_id = 1, c_restaurant_id = 1, total_orders = 0, total_spent = 0,
                   last_order_at = None\<rparr>"

definition ex_order :: order where
  "ex_order = \<lparr>o_id = 7, o_restaurant_id = 1, o_customer_id = Some 1,
                o_order_number = Some ''20250811-0001'', o_status = Some Pending,
                o_total_amount = 51 / 2, o_created_at = Some ex_t0, o_updated_at = Some ex_t0\<rparr>"

definition ex_db :: database where
  "ex_db = \<lparr>customers = [ex_customer], orders = [ex_order]\<rparr>"

definition ex_served_order :: order where
  "ex_served_order =
     \<lparr>o_id = 8, o_restaurant_id = 1, o_customer_id = Some 1, o_order_number = None,
      o_status = Some Served, o_total_amount = 40, o_created_at = Some ex_t1,
      o_updated_at = Some ex_t1\<rparr>"

definition ex_order_data :: CreateOrderData where
  "ex_order_data =
     \<lparr>cod_restaurant_id = 1, cod_customer_id = Some 1, cod_order_number = ''20250811-0002'',
      cod_total_amount = 40\<rparr>"

definition ex_other_restaurant_order :: order where
  "ex_other_restaurant_order =
     \<lparr>o_id = 8, o_restaurant_id = 2, o_customer_id = None, o_order_number = None,
      o_status = Some Pending, o_total_amount = 12, o_created_at = Some ex_t1,
      o_updated_at = Some ex_t1\<rparr>"

definition ex_second_order :: order where
  "ex_second_order =
     \<lparr>o_id = 9, o_restaurant_id = 1, o_customer_id = None, o_order_number = None,
      o_status = Some Pending, o_total_amount = 15, o_created_at = Some ex_t1,
      o_updated_at = Some ex_t1\<rparr>"

definition ex_third_order :: order where
  "ex_third_order =
     \<lparr>o_id = 10, o_restaurant_id = 1, o_customer_id = None, o_order_number = None,
      o_status = Some Pending, o_total_amount = 18, o_created_at = Some ex_t1,
      o_updated_at = Some ex_t1\<rparr>"

definition ex_late_order :: order where
  "ex_late_order =
     ex_order\<lparr>o_created_at := Some \<lparr>ts_date = ex_date, ts_usec = 86399999500\<rparr>\<rparr>"

definition ex_late_call :: timestamptz where
  "ex_late_call = \<lparr>ts_date = ex_date, ts_usec = 86399999700\<rparr>"

definition ex_busy_day :: "order list" where
  "ex_busy_day =
     map (\<lambda>i. ex_order\<lparr>o_id := i,
                      o_order_number :=
                        Some (''20250811-'' @ padStart (string_of_nat (Suc i)) 4 CHR ''0'')\<rparr>)
       [0..<9999]"

definition ex_hours_day :: "business_hours list" where
  "ex_hours_day =
     [\<lparr>bh_revenue_center_id = 3, bh_day_of_week = 1, bh_open_time = Some 32400000000,
       bh_close_time = Some 79200000000, bh_is_closed = Some False\<rparr>]"

definition ex_hours_night :: "business_hours list" where
  "ex_hours_night =
     [\<lparr>bh_revenue_center_id = 3, bh_day_of_week = 1, bh_open_time = Some 79200000000,
       bh_close_time = Some 7200000000, bh_is_closed = Some False\<rparr>]"

definition ex_menu_items :: "menu_item list" where
  "ex_menu_items = [\<lparr>mi_id = 10, mi_restaurant_id = 2\<rparr>, \<lparr>mi_id = 11, mi_restaurant_id = 1\<rparr>]"

definition ex_combo_meals :: "combo_meal list" where
  "ex_combo_meals = [\<lparr>cm_id = 20, cm_restaurant_id = 2\<rparr>]"

definition ex_item :: order_item where
  "ex_item = \<lparr>oi_id = 30, oi_order_id = 7, oi_menu_item_id = Some 11, oi_combo_meal_id = None,
               oi_quantity = 2\<rparr>"

definition ex_owner :: kitchen_owner where
  "ex_owner =
     \<lparr>ko_id = 1, ko_user_id = None, ko_email = ''chef@example.com'', ko_full_name = ''Chef'',
      ko_subscription_plan = ''basic'', ko_payment_id = ''pay_1'', ko_subscription_amount = 49,
      ko_subscription_expires_at = ''2026-08-11T00:00:00Z'', ko_password_hash = ''00'',
      ko_is_setup_completed = False\<rparr>"

definition ex_backend :: backend where
  "ex_backend = \<lparr>kitchen_owners = [ex_owner], auth_users = [], users = []\<rparr>"

definition ex_env :: environment where
  "ex_env = \<lparr>randomPassword = ''s3cret'', hashedPassword = ''ab'', new_owner_id = 2,
              new_auth_user_id = 5\<rparr>"

definition ex_request_data :: CreateKitchenOwnerRequest where
  "ex_request_data =
     \<lparr>email = Some ''chef@example.com'', full_name = Some ''Chef'',
      subscription_plan = Some ''basic'', payment_id = Some ''pay_1'',
      subscription_amount = Some 49, subscription_expires_at = Some ''2026-08-11T00:00:00Z''\<rparr>"

definition ex_request :: request where
  "ex_request =
     \<lparr>req_method = ''POST'',
      req_json = Some ex_request_data\<rparr>"

section \<open>Properties\<close>

subsection \<open>Arithmetic of doubles at given numbers\<close>

text \<open>
  The floor and the ceiling of a quotient of numerals, for the evaluation of
  \<open>double_of\<close> at a given rational.
\<close>

lemma floor_numeral_div: "\<lfloor>numeral a / numeral b :: rat\<rfloor> = numeral a div numeral b"
  using floor_divide_of_int_eq [of "numeral a" "numeral b", where ?'a = rat] by simp

lemma ceiling_numeral_div:
  "\<lceil>numeral a / numeral b :: rat\<rceil> = - ((- numeral a) div numeral b)"
  using ceiling_divide_eq_div [of "numeral a" "numeral b", where ?'a = rat] by simp

text \<open>Whole amounts of the size of a bill are doubles, and so are their sums.\<close>

lemma binade_40: "binade 40 = 5"
  by (simp add: binade_def bit_length.simps)

lemma binade_60: "binade 60 = 5"
  by (simp add: binade_def bit_length.simps)

lemma binade_100: "binade 100 = 6"
  by (simp add: binade_def bit_length.simps)

lemma double_of_whole:
  "double_of 40 = 40" "double_of 60 = 60" "double_of 100 = 100"
  by (simp_all add: double_of_def binade_40 binade_60 binade_100 pow2_def round_half_even_def
      Let_def)

lemma double_add_whole:
  "double_add 0 40 = 40" "double_add 0 60 = 60" "double_add 40 60 = 100"
  by (simp_all add: double_add_def double_of_whole)

text \<open>
  Tenths are not doubles. The doubles of 0.1, 0.2 and 0.3, and the sums
  \<open>0.1 + 0.2\<close>, \<open>(0.1 + 0.2) + 0.3\<close> and \<open>((0.1 + 0.2) + 0.3) + (- 0.3)\<close> in doubles:
  the first is not the double of 0.3, and the last is larger than the first.
\<close>

lemma binade_tenths:
  "binade (1 / 10) = - 4" "binade (1 / 5) = - 3" "binade (3 / 10) = - 2"
  by (simp_all add: binade_def bit_length.simps ceiling_numeral_div)

lemma double_of_tenths:
  "double_of (1 / 10) = 3602879701896397 / 36028797018963968"
  "double_of (1 / 5) = 3602879701896397 / 18014398509481984"
  "double_of (3 / 10) = 5404319552844595 / 18014398509481984"
  "double_of (- (3 / 10)) = - (5404319552844595 / 18014398509481984)"
  by (simp_all add: double_of_def binade_tenths pow2_def round_half_even_def Let_def
      floor_numeral_div)

lemma double_of_double_tenth:
  "double_of (3602879701896397 / 36028797018963968) = 3602879701896397 / 36028797018963968"
proof -
  have "binade (3602879701896397 / 36028797018963968) = - 4"
    by (simp add: binade_def bit_length.simps ceiling_numeral_div)
  then show ?thesis
    by (simp add: double_of_def pow2_def round_half_even_def Let_def floor_numeral_div)
qed

lemma double_add_tenth_fifth:
  "double_add (3602879701896397 / 36028797018963968) (3602879701896397 / 18014398509481984)
     = 1351079888211149 / 4503599627370496"
proof -
  have exact: "(3602879701896397 / 36028797018963968 + 3602879701896397 / 18014398509481984 :: rat)
      = 10808639105689191 / 36028797018963968"
    by simp
  have "binade (10808639105689191 / 36028797018963968) = - 2"
    by (simp add: binade_def bit_length.simps ceiling_numeral_div)
  then have "double_of (10808639105689191 / 36028797018963968)
      = 1351079888211149 / 4503599627370496"
    by (simp add: double_of_def pow2_def round_half_even_def Let_def floor_numeral_div)
  then show ?thesis
    by (simp only: double_add_def exact)
qed

lemma double_add_plus_three_tenths:
  "double_add (1351079888211149 / 4503599627370496) (5404319552844595 / 18014398509481984)
     = 1351079888211149 / 2251799813685248"
proof -
  have exact: "(1351079888211149 / 4503599627370496 + 5404319552844595 / 18014398509481984 :: rat)
      = 10808639105689191 / 18014398509481984"
    by simp
  have "binade (10808639105689191 / 18014398509481984) = - 1"
    by (simp add: binade_def bit_length.simps ceiling_numeral_div)
  then have "double_of (10808639105689191 / 18014398509481984)
      = 1351079888211149 / 2251799813685248"
    by (simp add: double_of_def pow2_def round_half_even_def Let_def floor_numeral_div)
  then show ?thesis
    by (simp only: double_add_def exact)
qed

lemma double_add_minus_three_tenths:
  "double_add (1351079888211149 / 2251799813685248) (- (5404319552844595 / 18014398509481984))
     = 5404319552844597 / 18014398509481984"
proof -
  have exact: "(1351079888211149 / 2251799813685248 + - (5404319552844595 / 18014398509481984) :: rat)
      = 5404319552844597 / 18014398509481984"
    by simp
  have "binade (5404319552844597 / 18014398509481984) = - 2"
    by (simp add: binade_def bit_length.simps ceiling_numeral_div)
  then have "double_of (5404319552844597 / 18014398509481984)
      = 5404319552844597 / 18014398509481984"
    by (simp add: double_of_def pow2_def round_half_even_def Let_def floor_numeral_div)
  then show ?thesis
    by (simp only: double_add_def exact)
qed

subsection \<open>Payment status\<close>

lemma double_sum_Nil: "double_sum [] = 0"
  by (simp add: double_sum_def)

text \<open>
  C1 (as stated, refuted): the order total is not an input of the function. With an order
  total of 100 and a single completed payment of 40 the specification's rule gives
  \<open>pending\<close>, the function \<open>completed\<close>.
\<close>

theorem C1_order_total_counterexample:
  "calculateOrderPaymentStatus
     (Some [\<lparr>p_order_id = 1, p_amount = 40, p_status = Some PayCompleted\<rparr>]) = ''completed''
   \<and> spec_payment_status 100
     [\<lparr>p_order_id = 1, p_amount = 40, p_status = Some PayCompleted\<rparr>] = ''pending''"
  by (simp add: calculateOrderPaymentStatus_def spec_payment_status_def Number_def
      double_of_whole double_add_whole)

text \<open>
  C1 (amended): the status is \<open>pending\<close> for no payments; \<open>completed\<close> if the sum of
  the amounts of the completed payments is at least the sum of the amounts of all the
  payments of the list, both sums taken from the left in doubles, the order total not
  being consulted; otherwise \<open>partial\<close> if some payment is completed and some is
  pending; otherwise \<open>pending\<close>. Where the two sums come out exact and the payments add
  up to the order total \<open>t\<close>, this is the rule of the specification; that covers its
  example: total 100.00 with payments 40 completed and 60 pending is \<open>partial\<close>, and
  \<open>completed\<close> once the second payment is completed.
\<close>

theorem C1_payment_status:
  "calculateOrderPaymentStatus None = ''pending''
   \<and> calculateOrderPaymentStatus (Some ps) =
       (if ps = [] then ''pending''
        else if double_sum ps \<le> double_sum (filter (\<lambda>p. p_status p = Some PayCompleted) ps)
          then ''completed''
        else if (\<exists>p \<in> set ps. p_status p = Some PayCompleted)
                \<and> (\<exists>p \<in> set ps. p_status p = Some PayPending) then ''partial''
        else ''pending'')
   \<and> (double_sum ps = t
        \<and> double_sum (filter (\<lambda>p. p_status p = Some PayCompleted) ps)
            = sum_list (map p_amount (filter (\<lambda>p. p_status p = Some PayCompleted) ps))
      \<longrightarrow> calculateOrderPaymentStatus (Some ps) = spec_payment_status t ps)"
proof -
  have rule: "calculateOrderPaymentStatus (Some ps) =
       (if ps = [] then ''pending''
        else if double_sum ps \<le> double_sum (filter (\<lambda>p. p_status p = Some PayCompleted) ps)
          then ''completed''
        else if (\<exists>p \<in> set ps. p_status p = Some PayCompleted)
                \<and> (\<exists>p \<in> set ps. p_status p = Some PayPending) then ''partial''
        else ''pending'')"
    by (simp add: calculateOrderPaymentStatus_def double_sum_def list_ex_iff Let_def)
  have none: "calculateOrderPaymentStatus None = ''pending''"
    by (simp add: calculateOrderPaymentStatus_def)
  have spec: "calculateOrderPaymentStatus (Some ps) = spec_payment_status t ps"
    if "double_sum ps = t"
      and "double_sum (filter (\<lambda>p. p_status p = Some PayCompleted) ps)
            = sum_list (map p_amount (filter (\<lambda>p. p_status p = Some PayCompleted) ps))"
    using that unfolding rule spec_payment_status_def by simp
  from none rule spec show ?thesis by blast
qed

text \<open>
  The example of the specification: the sums of 40 and 60 are exact in doubles, and the
  payments add up to the order total 100.
\<close>

theorem C1_payment_status_witness:
  "double_sum [\<lparr>p_order_id = 1, p_amount = 40, p_status = Some PayCompleted\<rparr>,
               \<lparr>p_order_id = 1, p_amount = 60, p_status = Some PayPending\<rparr>] = 100
   \<and> calculateOrderPaymentStatus
      (Some [\<lparr>p_order_id = 1, p_amount = 40, p_status = Some PayCompleted\<rparr>,
             \<lparr>p_order_id = 1, p_amount = 60, p_status = Some PayPending\<rparr>]) = ''partial''
   \<and> spec_payment_status 100
      [\<lparr>p_order_id = 1, p_amount = 40, p_status = Some PayCompleted\<rparr>,
       \<lparr>p_order_id = 1, p_amount = 60, p_status = Some PayPending\<rparr>] = ''partial''
   \<and> calculateOrderPaymentStatus
      (Some [\<lparr>p_order_id = 1, p_amount = 40, p_status = Some PayCompleted\<rparr>,
             \<lparr>p_order_id = 1, p_amount = 60, p_status = Some PayCompleted\<rparr>]) = ''completed''
   \<and> spec_payment_status 100
      [\<lparr>p_order_id = 1, p_amount = 40, p_status = Some PayCompleted\<rparr>,
       \<lparr>p_order_id = 1, p_amount = 60, p_status = Some PayCompleted\<rparr>] = ''completed''"
proof -
  let ?a = "\<lparr>p_order_id = 1, p_amount = 40, p_status = Some PayCompleted\<rparr>"
  let ?b = "\<lparr>p_order_id = 1, p_amount = 60, p_status = Some PayPending\<rparr>"
  let ?c = "\<lparr>p_order_id = 1, p_amount = 60, p_status = Some PayCompleted\<rparr>"
  have total: "double_sum [?a, ?b] = 100" "double_sum [?a, ?c] = 100"
    by (simp_all add: double_sum_def Number_def double_of_whole double_add_whole)
  have part: "double_sum (filter (\<lambda>p. p_status p = Some PayCompleted) [?a, ?b])
      = sum_list (map p_amount (filter (\<lambda>p. p_status p = Some PayCompleted) [?a, ?b]))"
    by (simp add: double_sum_def Number_def double_of_whole double_add_whole)
  have full: "double_sum (filter (\<lambda>p. p_status p = Some PayCompleted) [?a, ?c])
      = sum_list (map p_amount (filter (\<lambda>p. p_status p = Some PayCompleted) [?a, ?c]))"
    by (simp add: double_sum_def Number_def double_of_whole double_add_whole)
  have one: "calculateOrderPaymentStatus (Some [?a, ?b]) = spec_payment_status 100 [?a, ?b]"
    using C1_payment_status [of "[?a, ?b]" 100] total(1) part by blast
  have two: "calculateOrderPaymentStatus (Some [?a, ?c]) = spec_payment_status 100 [?a, ?c]"
    using C1_payment_status [of "[?a, ?c]" 100] total(2) full by blast
  have "spec_payment_status 100 [?a, ?b] = ''partial''"
    "spec_payment_status 100 [?a, ?c] = ''completed''"
    by (simp_all add: spec_payment_status_def)
  with one two total show ?thesis by simp
qed

text \<open>
  Where rounding decides. Payments of 0.10 and 0.20 completed, 0.30 pending and a refund
  of \<open>- 0.30\<close>: the completed amounts and all the amounts both add up to 0.30 exactly, so
  that the rule in exact arithmetic gives \<open>completed\<close>; in doubles the completed sum is
  0.30000000000000004 and the sum of all is 0.3000000000000001, and the function
  returns \<open>partial\<close>.
\<close>

lemma rounding_decides:
  "calculateOrderPaymentStatus
     (Some [\<lparr>p_order_id = 1, p_amount = 1 / 10, p_status = Some PayCompleted\<rparr>,
            \<lparr>p_order_id = 1, p_amount = 1 / 5, p_status = Some PayCompleted\<rparr>,
            \<lparr>p_order_id = 1, p_amount = 3 / 10, p_status = Some PayPending\<rparr>,
            \<lparr>p_order_id = 1, p_amount = - (3 / 10), p_status = Some PayRefunded\<rparr>])
     = ''partial''"
  "spec_payment_status (3 / 10)
     [\<lparr>p_order_id = 1, p_amount = 1 / 10, p_status = Some PayCompleted\<rparr>,
      \<lparr>p_order_id = 1, p_amount = 1 / 5, p_status = Some PayCompleted\<rparr>,
      \<lparr>p_order_id = 1, p_amount = 3 / 10, p_status = Some PayPending\<rparr>,
      \<lparr>p_order_id = 1, p_amount = - (3 / 10), p_status = Some PayRefunded\<rparr>]
     = ''completed''"
proof -
  have first: "double_add 0 (3602879701896397 / 36028797018963968)
      = 3602879701896397 / 36028797018963968"
    by (simp add: double_add_def double_of_double_tenth)
  show "calculateOrderPaymentStatus
     (Some [\<lparr>p_order_id = 1, p_amount = 1 / 10, p_status = Some PayCompleted\<rparr>,
            \<lparr>p_order_id = 1, p_amount = 1 / 5, p_status = Some PayCompleted\<rparr>,
            \<lparr>p_order_id = 1, p_amount = 3 / 10, p_status = Some PayPending\<rparr>,
            \<lparr>p_order_id = 1, p_amount = - (3 / 10), p_status = Some PayRefunded\<rparr>])
     = ''partial''"
    by (simp add: calculateOrderPaymentStatus_def Number_def double_of_tenths first
        double_add_tenth_fifth double_add_plus_three_tenths double_add_minus_three_tenths)
  show "spec_payment_status (3 / 10)
     [\<lparr>p_order_id = 1, p_amount = 1 / 10, p_status = Some PayCompleted\<rparr>,
      \<lparr>p_order_id = 1, p_amount = 1 / 5, p_status = Some PayCompleted\<rparr>,
      \<lparr>p_order_id = 1, p_amount = 3 / 10, p_status = Some PayPending\<rparr>,
      \<lparr>p_order_id = 1, p_amount = - (3 / 10), p_status = Some PayRefunded\<rparr>]
     = ''completed''"
    by (simp add: spec_payment_status_def)
qed

subsection \<open>Customer statistics: the trigger on orders\<close>

lemma update_orders_rows_customers:
  "snd (update_orders_rows now oid st rows cs) =
     run_transitions
       (map (\<lambda>OLD. (OLD, update_updated_at_column now (st OLD)))
          (filter (\<lambda>r. o_id r = oid) rows)) cs"
  by (induction rows arbitrary: cs) (simp_all add: split_beta Let_def)

lemma update_orders_rows_orders:
  "fst (update_orders_rows now oid st rows cs) =
     map (\<lambda>r. if o_id r = oid then update_updated_at_column now (st r) else r) rows"
  by (induction rows arbitrary: cs) (simp_all add: split_beta Let_def)

lemma sql_update_orders_customers:
  "customers (sql_update_orders now oid st db) =
     run_transitions
       (map (\<lambda>OLD. (OLD, update_updated_at_column now (st OLD)))
          (filter (\<lambda>r. o_id r = oid) (orders db))) (customers db)"
  by (simp add: sql_update_orders_def split_beta update_orders_rows_customers)

lemma sql_update_orders_orders:
  "orders (sql_update_orders now oid st db) =
     map (\<lambda>r. if o_id r = oid then update_updated_at_column now (st r) else r) (orders db)"
  by (simp add: sql_update_orders_def split_beta update_orders_rows_orders)

text \<open>
  C2: an \<open>UPDATE\<close> of the order \<open>OLD\<close> (the one row with the id) to \<open>NEW\<close>, the
  new row having the customer reference \<open>k\<close>. A change into \<open>served\<close> from a status
  other than \<open>served\<close> (or from none) adds 1 to \<open>total_orders\<close> of customer \<open>k\<close>,
  adds the order's \<open>total_amount\<close> to \<open>total_spent\<close> and sets \<open>last_order_at\<close> to the
  time of the update; a change from \<open>served\<close> to \<open>cancelled\<close> subtracts 1 and the
  \<open>total_amount\<close>, each floored at 0; every other update leaves the table of customers
  as it is.
\<close>

theorem C2_customer_stats:
  assumes "filter (\<lambda>r. o_id r = oid) (orders db) = [OLD]"
    and "NEW = update_updated_at_column now (st OLD)"
    and "o_customer_id NEW = Some k"
  shows "customers (sql_update_orders now oid st db) =
     (if o_status NEW = Some Served \<and> o_status OLD \<noteq> Some Served then
        map (\<lambda>c. if c_id c = k
                  then c\<lparr>total_orders := total_orders c + 1,
                         total_spent := total_spent c + o_total_amount NEW,
                         last_order_at := Some now\<rparr>
                  else c) (customers db)
      else if o_status OLD = Some Served \<and> o_status NEW = Some Cancelled then
        map (\<lambda>c. if c_id c = k
                  then c\<lparr>total_orders := max (total_orders c - 1) 0,
                         total_spent := max (total_spent c - o_total_amount NEW) 0\<rparr>
                  else c) (customers db)
      else customers db)"
  using assms
  by (auto simp: sql_update_orders_customers update_customer_stats_trigger_def
      update_customer_stats_def update_customers_where_id_def update_updated_at_column_def)

text \<open>
  The example of the specification: a customer at 0 orders and 0.00 spent, an order of
  25.50 going from \<open>pending\<close> to \<open>served\<close>, then from \<open>served\<close> to \<open>cancelled\<close>.
\<close>

theorem C2_customer_stats_witness:
  "customers (sql_update_orders ex_t1 7 (\<lambda>r. r\<lparr>o_status := Some Served\<rparr>) ex_db) =
     [ex_customer\<lparr>total_orders := 1, total_spent := 51 / 2, last_order_at := Some ex_t1\<rparr>]
   \<and> customers (sql_update_orders ex_t2 7 (\<lambda>r. r\<lparr>o_status := Some Cancelled\<rparr>)
        (sql_update_orders ex_t1 7 (\<lambda>r. r\<lparr>o_status := Some Served\<rparr>) ex_db)) =
     [ex_customer\<lparr>total_orders := 0, total_spent := 0, last_order_at := Some ex_t1\<rparr>]"
proof -
  let ?served = "\<lambda>r. r\<lparr>o_status := Some Served\<rparr>"
  let ?cancelled = "\<lambda>r. r\<lparr>o_status := Some Cancelled\<rparr>"
  let ?db1 = "sql_update_orders ex_t1 7 ?served ex_db"
  let ?o1 = "update_updated_at_column ex_t1 (?served ex_order)"
  have a: "filter (\<lambda>r. o_id r = 7) (orders ex_db) = [ex_order]"
    by (simp add: ex_db_def ex_order_def)
  have b: "o_customer_id ?o1 = Some 1"
    by (simp add: update_updated_at_column_def ex_order_def)
  have c: "filter (\<lambda>r. o_id r = 7) (orders ?db1) = [?o1]"
    by (simp add: sql_update_orders_orders ex_db_def ex_order_def update_updated_at_column_def)
  have d: "o_customer_id (update_updated_at_column ex_t2 (?cancelled ?o1)) = Some 1"
    by (simp add: update_updated_at_column_def ex_order_def)
  have first: "customers ?db1 =
      [ex_customer\<lparr>total_orders := 1, total_spent := 51 / 2, last_order_at := Some ex_t1\<rparr>]"
    using C2_customer_stats [where st = ?served and now = ex_t1, OF a refl b]
    by (simp add: update_updated_at_column_def ex_order_def ex_db_def ex_customer_def)
  have second: "customers (sql_update_orders ex_t2 7 ?cancelled ?db1) =
      [ex_customer\<lparr>total_orders := 0, total_spent := 0, last_order_at := Some ex_t1\<rparr>]"
    using C2_customer_stats [where st = ?cancelled and now = ex_t2, OF c refl d] first
    by (simp add: update_updated_at_column_def ex_order_def ex_customer_def)
  from first second show ?thesis by simp
qed

lemma trigger_total_orders_nonneg:
  "list_all (\<lambda>c. 0 \<le> total_orders c) cs \<Longrightarrow>
   list_all (\<lambda>c. 0 \<le> total_orders c) (update_customer_stats_trigger OLD NEW cs)"
  by (auto simp: update_customer_stats_trigger_def update_customer_stats_def
      update_customers_where_id_def list_all_iff)

lemma trigger_nonneg_stats:
  "nonneg_stats cs \<Longrightarrow> (o_status NEW = Some Served \<longrightarrow> 0 \<le> o_total_amount NEW) \<Longrightarrow>
   nonneg_stats (update_customer_stats_trigger OLD NEW cs)"
  by (auto simp: nonneg_stats_def update_customer_stats_trigger_def update_customer_stats_def
      update_customers_where_id_def list_all_iff)

text \<open>
  C3 (as stated, refuted): \<open>total_amount\<close> has no \<open>CHECK\<close>, and the increment on
  entering \<open>served\<close> is not clamped. An order with the total \<open>-5\<close> (a discount larger
  than subtotal and tax) that goes from \<open>pending\<close> to \<open>served\<close> takes a customer from
  0.00 to \<open>-5\<close> spent.
\<close>

theorem C3_negative_total_counterexample:
  "nonneg_stats [ex_customer]
   \<and> run_transitions
        [(ex_order\<lparr>o_total_amount := - 5\<rparr>,
          ex_order\<lparr>o_total_amount := - 5, o_status := Some Served\<rparr>)] [ex_customer]
       = [ex_customer\<lparr>total_orders := 1, total_spent := - 5, last_order_at := Some ex_t0\<rparr>]
   \<and> \<not> nonneg_stats (run_transitions
        [(ex_order\<lparr>o_total_amount := - 5\<rparr>,
          ex_order\<lparr>o_total_amount := - 5, o_status := Some Served\<rparr>)] [ex_customer])"
  by (simp add: nonneg_stats_def ex_customer_def ex_order_def update_customer_stats_trigger_def
      update_customer_stats_def update_customers_where_id_def)

text \<open>
  C3 (amended): \<open>total_orders\<close> never becomes negative, whatever the sequence of
  updates; \<open>total_spent\<close> never becomes negative provided no order enters \<open>served\<close>
  with a negative \<open>total_amount\<close>.
\<close>

theorem C3_nonneg:
  "(list_all (\<lambda>c. 0 \<le> total_orders c) cs \<longrightarrow>
      list_all (\<lambda>c. 0 \<le> total_orders c) (run_transitions ts cs))
   \<and> (nonneg_stats cs
        \<and> list_all (\<lambda>(OLD, NEW). o_status NEW = Some Served \<longrightarrow> 0 \<le> o_total_amount NEW) ts
      \<longrightarrow> nonneg_stats (run_transitions ts cs))"
proof (induction ts arbitrary: cs)
  case Nil
  show ?case by simp
next
  case (Cons t ts)
  obtain OLD NEW where t: "t = (OLD, NEW)" by (cases t)
  show ?case
    using Cons.IH [of "update_customer_stats_trigger OLD NEW cs"]
      trigger_total_orders_nonneg [of cs OLD NEW] trigger_nonneg_stats [of cs NEW OLD]
    by (simp add: t)
qed

text \<open>
  A sequence with more cancellations than servings: the second decrement is clamped at zero.
\<close>

theorem C3_nonneg_witness:
  "nonneg_stats [ex_customer]
   \<and> run_transitions
        [(ex_order, ex_order\<lparr>o_status := Some Served\<rparr>),
         (ex_order\<lparr>o_status := Some Served\<rparr>, ex_order\<lparr>o_status := Some Cancelled\<rparr>),
         (ex_order\<lparr>o_status := Some Served\<rparr>, ex_order\<lparr>o_status := Some Cancelled\<rparr>)]
        [ex_customer]
       = [ex_customer\<lparr>total_orders := 0, total_spent := 0, last_order_at := Some ex_t0\<rparr>]
   \<and> nonneg_stats (run_transitions
        [(ex_order, ex_order\<lparr>o_status := Some Served\<rparr>),
         (ex_order\<lparr>o_status := Some Served\<rparr>, ex_order\<lparr>o_status := Some Cancelled\<rparr>),
         (ex_order\<lparr>o_status := Some Served\<rparr>, ex_order\<lparr>o_status := Some Cancelled\<rparr>)]
        [ex_customer])"
  using C3_nonneg
    [of "[ex_customer]"
        "[(ex_order, ex_order\<lparr>o_status := Some Served\<rparr>),
          (ex_order\<lparr>o_status := Some Served\<rparr>, ex_order\<lparr>o_status := Some Cancelled\<rparr>),
          (ex_order\<lparr>o_status := Some Served\<rparr>, ex_order\<lparr>o_status := Some Cancelled\<rparr>)]"]
  by (simp add: nonneg_stats_def ex_customer_def ex_order_def update_customer_stats_trigger_def
      update_customer_stats_def update_customers_where_id_def)

subsection \<open>Customer statistics: who writes the aggregate columns\<close>

lemma run_transitions_no_status_change:
  "list_all (\<lambda>(OLD, NEW). o_status NEW = o_status OLD) ts \<Longrightarrow> run_transitions ts cs = cs"
  by (induction ts arbitrary: cs)
     (auto simp: update_customer_stats_trigger_def update_customer_stats_def)

lemma filter_single_unique:
  assumes "filter P xs = [c]" and "x \<in> set xs" and "P x"
  shows "x = c"
proof -
  have "x \<in> set (filter P xs)"
    using assms(2,3) by simp
  then show ?thesis
    unfolding assms(1) by simp
qed

text \<open>
  C7 (as stated, refuted): \<^verbatim>\<open>CustomerService.updateCustomerOrderStats\<close> writes the three
  aggregate columns itself. With no update of any order, customer 1 goes from 0 orders
  and 0.00 spent to 1 order and 10.00 spent.
\<close>

theorem C7_direct_write_counterexample:
  "updateCustomerOrderStats ex_t1 1 10 ex_db =
     Inr \<lparr>customers =
            [ex_customer\<lparr>total_orders := 1, total_spent := 10, last_order_at := Some ex_t1\<rparr>],
          orders = [ex_order]\<rparr>"
  by (simp add: updateCustomerOrderStats_def getCustomerById_def updateCustomer_def ex_db_def
      ex_customer_def update_customers_where_id_def apply_customer_updates_def)

text \<open>
  C7 (amended): in the store, the aggregate columns change only in reaction to a change of
  an order's status: an \<open>UPDATE\<close> of orders that leaves the status of every updated row
  as it was leaves the table of customers as it is. The columns are nevertheless writable
  from the service layer: \<^verbatim>\<open>updateCustomer\<close> sets whatever columns its argument names, and
  \<^verbatim>\<open>updateCustomerOrderStats\<close> adds 1 to \<open>total_orders\<close>, the given amount to
  \<open>total_spent\<close> and sets \<open>last_order_at\<close> to the current time.
\<close>

theorem C7_aggregate_writers:
  "(list_all (\<lambda>r. o_id r = oid \<longrightarrow> o_status (st r) = o_status r) (orders db) \<longrightarrow>
      customers (sql_update_orders now oid st db) = customers db)
   \<and> (updateCustomer cid u db = Inr dba \<longrightarrow>
        customers dba =
          map (\<lambda>c. if c_id c = cid then apply_customer_updates u c else c) (customers db))
   \<and> (updateCustomerOrderStats now cid amount db = Inr dbb \<longrightarrow>
        customers dbb =
          map (\<lambda>c. if c_id c = cid
                    then c\<lparr>total_orders := total_orders c + 1,
                           total_spent := total_spent c + amount,
                           last_order_at := Some now\<rparr>
                    else c) (customers db))"
proof (intro conjI impI)
  assume "list_all (\<lambda>r. o_id r = oid \<longrightarrow> o_status (st r) = o_status r) (orders db)"
  then have "list_all (\<lambda>(OLD, NEW). o_status NEW = o_status OLD)
      (map (\<lambda>OLD. (OLD, update_updated_at_column now (st OLD)))
         (filter (\<lambda>r. o_id r = oid) (orders db)))"
    by (simp add: list_all_iff update_updated_at_column_def)
  then show "customers (sql_update_orders now oid st db) = customers db"
    by (simp add: sql_update_orders_customers run_transitions_no_status_change)
next
  assume "updateCustomer cid u db = Inr dba"
  then show "customers dba =
      map (\<lambda>c. if c_id c = cid then apply_customer_updates u c else c) (customers db)"
    by (auto simp: updateCustomer_def update_customers_where_id_def split: if_splits)
next
  assume a: "updateCustomerOrderStats now cid amount db = Inr dbb"
  then obtain c where c: "filter (\<lambda>c. c_id c = cid) (customers db) = [c]"
    by (auto simp: updateCustomerOrderStats_def getCustomerById_def
        split: list.splits sum.splits)
  have same: "x = c" if "x \<in> set (customers db)" "c_id x = cid" for x
    using filter_single_unique [OF c that(1)] that(2) by simp
  from a c show "customers dbb =
      map (\<lambda>c. if c_id c = cid
                then c\<lparr>total_orders := total_orders c + 1,
                       total_spent := total_spent c + amount,
                       last_order_at := Some now\<rparr>
                else c) (customers db)"
    by (auto simp: updateCustomerOrderStats_def getCustomerById_def updateCustomer_def
        update_customers_where_id_def apply_customer_updates_def dest: same)
qed

theorem C7_aggregate_writers_witness:
  "customers (sql_update_orders ex_t1 7 (\<lambda>r. r\<lparr>o_total_amount := 30\<rparr>) ex_db) = [ex_customer]
   \<and> updateCustomer 1
        \<lparr>upd_total_orders = Some 5, upd_total_spent = None, upd_last_order_at = None\<rparr> ex_db
       = Inr (ex_db\<lparr>customers := [ex_customer\<lparr>total_orders := 5\<rparr>]\<rparr>)
   \<and> updateCustomerOrderStats ex_t1 1 10 ex_db
       = Inr (ex_db\<lparr>customers :=
           [ex_customer\<lparr>total_orders := 1, total_spent := 10, last_order_at := Some ex_t1\<rparr>]\<rparr>)"
  using C7_aggregate_writers
    [where oid = 7 and st = "\<lambda>r. r\<lparr>o_total_amount := 30\<rparr>" and db = ex_db and now = ex_t1
       and cid = 1 and amount = 10
       and u = "\<lparr>upd_total_orders = Some 5, upd_total_spent = None, upd_last_order_at = None\<rparr>"
       and dba = "ex_db\<lparr>customers := [ex_customer\<lparr>total_orders := 5\<rparr>]\<rparr>"
       and dbb = "ex_db\<lparr>customers :=
           [ex_customer\<lparr>total_orders := 1, total_spent := 10, last_order_at := Some ex_t1\<rparr>]\<rparr>"]
  by (simp add: ex_db_def ex_order_def ex_customer_def updateCustomer_def
      updateCustomerOrderStats_def getCustomerById_def update_customers_where_id_def
      apply_customer_updates_def)

subsection \<open>Decimal texts and padding\<close>

lemma replicate_numeral: "replicate (numeral k) x = x # replicate (pred_numeral k) x"
  by (simp add: numeral_eq_Suc)

lemma digit_char_not_dash: "k < 10 \<Longrightarrow> ''0123456789'' ! k \<noteq> CHR ''-''"
proof -
  assume "k < 10"
  then have "k \<in> {0, 1, 2, 3, 4, 5, 6, 7, 8, 9}" by auto
  then show ?thesis by auto
qed

lemma string_of_nat_no_dash: "CHR ''-'' \<notin> set (string_of_nat n)"
proof (induction n rule: string_of_nat.induct)
  case (1 n)
  show ?case
  proof (cases "n < 10")
    case True
    then show ?thesis
      using digit_char_not_dash [of n] by (simp add: string_of_nat.simps [of n])
  next
    case False
    have "n mod 10 < 10" by simp
    then have "''0123456789'' ! (n mod 10) \<noteq> CHR ''-''" by (rule digit_char_not_dash)
    with False "1.IH" show ?thesis
      by (simp add: string_of_nat.simps [of n])
  qed
qed

lemma string_of_nat_nonempty: "string_of_nat n \<noteq> []"
  by (simp add: string_of_nat.simps [of n])

lemma length_string_of_nat: "0 < k \<Longrightarrow> n < 10 ^ k \<Longrightarrow> length (string_of_nat n) \<le> k"
proof (induction n arbitrary: k rule: string_of_nat.induct)
  case (1 n)
  show ?case
  proof (cases "n < 10")
    case True
    with "1.prems" show ?thesis by (simp add: string_of_nat.simps [of n])
  next
    case False
    with "1.prems" have k: "1 < k"
      by (cases "k = 1") auto
    then obtain j where j: "k = Suc j" "0 < j" by (cases k) auto
    from "1.prems" j have "n div 10 < 10 ^ j"
      by (simp add: less_mult_imp_div_less mult.commute)
    with "1.IH" [OF False j(2)] have "length (string_of_nat (n div 10)) \<le> j" .
    with False j show ?thesis by (simp add: string_of_nat.simps [of n])
  qed
qed

lemma length_padStart: "length (padStart s n c) = max n (length s)"
  by (simp add: padStart_def)

lemma filter_no_dash: "CHR ''-'' \<notin> set s \<Longrightarrow> filter (\<lambda>c. c \<noteq> CHR ''-'') s = s"
  by (induction s) auto

lemma padStart_no_dash: "CHR ''-'' \<notin> set s \<Longrightarrow> CHR ''-'' \<notin> set (padStart s n CHR ''0'')"
  by (simp add: padStart_def)

lemma LPAD_eq_padStart: "length s \<le> n \<Longrightarrow> LPAD s n c = padStart s n c"
  by (simp add: LPAD_def padStart_def)

lemma ex_date_text: "to_char_YYYYMMDD ex_date = ''20250811''"
  by (simp add: to_char_YYYYMMDD_def ex_date_def string_of_nat.simps padStart_def
      replicate_numeral)

lemma ex_t1_iso: "toISOString ex_t1 = ''2025-08-11T12:30:00.000Z''"
  by (simp add: toISOString_def ex_t1_def ex_date_def string_of_nat.simps padStart_def
      Let_def replicate_numeral)

lemma ex_t1_date: "ts_date ex_t1 = ex_date"
  by (simp add: ex_t1_def)

lemma ex_late_call_iso: "toISOString ex_late_call = ''2025-08-11T23:59:59.999Z''"
  by (simp add: toISOString_def ex_late_call_def ex_date_def string_of_nat.simps padStart_def
      Let_def replicate_numeral)

lemma ex_late_call_date: "ts_date ex_late_call = ex_date"
  by (simp add: ex_late_call_def)

subsection \<open>Order creation\<close>

text \<open>
  C10: an \<open>INSERT\<close> into orders, whatever the status and the customer reference of the
  new row, leaves the table of customers as it is; so does \<^verbatim>\<open>OrderService.createOrder\<close>.
  The statistics trigger is attached to \<open>UPDATE\<close> only.
\<close>

theorem C10_insert_frame:
  "(sql_insert_order now NEW db = Inr dba \<longrightarrow> customers dba = customers db)
   \<and> (createOrder new_id now orderData db = Inr dbb \<longrightarrow> customers dbb = customers db)"
  by (auto simp: sql_insert_order_def createOrder_def Let_def split: if_splits)

text \<open>
  An order inserted as \<open>served\<close> for customer 1: it is stored, with the number the
  \<open>BEFORE INSERT\<close> trigger generates, and the customer still has 0 orders. The same
  for an order created through the service.
\<close>

theorem C10_insert_frame_witness:
  "sql_insert_order ex_t1 ex_served_order ex_db =
     Inr \<lparr>customers = [ex_customer],
          orders = [ex_order, ex_served_order\<lparr>o_order_number := Some ''20250811-0002''\<rparr>]\<rparr>
   \<and> createOrder 9 ex_t1 ex_order_data ex_db =
     Inr \<lparr>customers = [ex_customer],
          orders = [ex_order,
            \<lparr>o_id = 9, o_restaurant_id = 1, o_customer_id = Some 1,
             o_order_number = Some ''20250811-0002'', o_status = Some Pending,
             o_total_amount = 40, o_created_at = Some ex_t1, o_updated_at = Some ex_t1\<rparr>]\<rparr>"
proof -
  have a: "sql_insert_order ex_t1 ex_served_order ex_db =
     Inr \<lparr>customers = [ex_customer],
          orders = [ex_order, ex_served_order\<lparr>o_order_number := Some ''20250811-0002''\<rparr>]\<rparr>"
    by (simp add: sql_insert_order_def set_order_number_def generate_order_number_def
        ex_db_def ex_order_def ex_served_order_def ex_customer_def ex_t1_date ex_t0_def
        ex_date_text LPAD_def string_of_nat.simps replicate_numeral)
  have b: "createOrder 9 ex_t1 ex_order_data ex_db =
     Inr \<lparr>customers = [ex_customer],
          orders = [ex_order,
            \<lparr>o_id = 9, o_restaurant_id = 1, o_customer_id = Some 1,
             o_order_number = Some ''20250811-0002'', o_status = Some Pending,
             o_total_amount = 40, o_created_at = Some ex_t1, o_updated_at = Some ex_t1\<rparr>]\<rparr>"
    by (simp add: createOrder_def sql_insert_order_def set_order_number_def ex_db_def
        ex_order_def ex_order_data_def ex_customer_def)
  from a b
    C10_insert_frame [where now = ex_t1 and NEW = ex_served_order and db = ex_db
      and new_id = 9 and orderData = ex_order_data
      and dba = "\<lparr>customers = [ex_customer],
          orders = [ex_order, ex_served_order\<lparr>o_order_number := Some ''20250811-0002''\<rparr>]\<rparr>"
      and dbb = "\<lparr>customers = [ex_customer],
          orders = [ex_order,
            \<lparr>o_id = 9, o_restaurant_id = 1, o_customer_id = Some 1,
             o_order_number = Some ''20250811-0002'', o_status = Some Pending,
             o_total_amount = 40, o_created_at = Some ex_t1, o_updated_at = Some ex_t1\<rparr>]\<rparr>"]
  show ?thesis by simp
qed

subsection \<open>Order numbers\<close>

text \<open>The first order of 2025-08-11 has the number \<open>20250811-0001\<close>, from both generators.\<close>

lemma first_order_of_the_day:
  "generate_order_number T ex_date [] = ''20250811-0001''"
  "generateOrderNumber T ex_t1 [] = ''20250811-0001''"
  by (simp_all add: generate_order_number_def generateOrderNumber_def ex_date_text ex_t1_iso
      LPAD_def padStart_def replicate_numeral string_of_nat.simps)

lemma iso_date_prefix:
  assumes "d_year (ts_date t) \<le> 9999" and "d_month (ts_date t) < 100"
    and "d_day (ts_date t) < 100"
  shows "filter (\<lambda>c. c \<noteq> CHR ''-'') (take 10 (toISOString t)) = to_char_YYYYMMDD (ts_date t)"
proof -
  let ?Y = "padStart (string_of_nat (d_year (ts_date t))) 4 CHR ''0''"
  let ?M = "padStart (string_of_nat (d_month (ts_date t))) 2 CHR ''0''"
  let ?D = "padStart (string_of_nat (d_day (ts_date t))) 2 CHR ''0''"
  have "length (string_of_nat (d_year (ts_date t))) \<le> 4"
    using assms(1) by (intro length_string_of_nat) simp_all
  then have Y: "length ?Y = 4" by (simp add: length_padStart)
  have "length (string_of_nat (d_month (ts_date t))) \<le> 2"
    using assms(2) by (intro length_string_of_nat) simp_all
  then have M: "length ?M = 2" by (simp add: length_padStart)
  have "length (string_of_nat (d_day (ts_date t))) \<le> 2"
    using assms(3) by (intro length_string_of_nat) simp_all
  then have D: "length ?D = 2" by (simp add: length_padStart)
  obtain rest where iso: "toISOString t = ?Y @ ''-'' @ ?M @ ''-'' @ ?D @ rest"
    using assms(1) by (simp add: toISOString_def Let_def)
  have "take 10 (toISOString t) = ?Y @ ''-'' @ ?M @ ''-'' @ ?D"
    unfolding iso using Y M D by simp
  moreover have "filter (\<lambda>c. c \<noteq> CHR ''-'') ?Y = ?Y"
    "filter (\<lambda>c. c \<noteq> CHR ''-'') ?M = ?M" "filter (\<lambda>c. c \<noteq> CHR ''-'') ?D = ?D"
    by (simp_all add: filter_no_dash padStart_no_dash string_of_nat_no_dash)
  ultimately show ?thesis
    by (simp add: to_char_YYYYMMDD_def)
qed

lemma date_less_asym: "date_less a b \<Longrightarrow> \<not> date_less b a"
  by (auto simp: date_less_def)

lemma date_less_irrefl: "\<not> date_less a a"
  by (simp add: date_less_def)

lemma within_client_bounds:
  "ts_le \<lparr>ts_date = d, ts_usec = 0\<rparr> t \<and> ts_less t \<lparr>ts_date = d, ts_usec = 86399999000\<rparr>
     \<longleftrightarrow> ts_date t = d \<and> ts_usec t < 86399999000"
  using date_less_asym [of d "ts_date t"] date_less_irrefl [of d]
  by (cases t) (auto simp: ts_le_def ts_less_def)

text \<open>
  Where the two generators agree, and give the number the specification describes: on a
  date of four, two and two digits, when no order was created in the last millisecond
  of a day and the orders of the restaurant on the date are fewer than 9999.
\<close>

lemma order_number_generators_agree:
  assumes "d_year (ts_date today) \<le> 9999" and "d_month (ts_date today) < 100"
    and "d_day (ts_date today) < 100"
    and late: "list_all (\<lambda>r. case o_created_at r of None \<Rightarrow> True
                              | Some t \<Rightarrow> ts_usec t < 86399999000) rows"
    and n: "n = length (filter (\<lambda>r. o_restaurant_id r = T
               \<and> map_option ts_date (o_created_at r) = Some (ts_date today)) rows)"
    and "n < 9999"
  shows "generate_order_number T (ts_date today) rows =
           to_char_YYYYMMDD (ts_date today) @ ''-'' @ padStart (string_of_nat (n + 1)) 4 CHR ''0''"
    and "generateOrderNumber T today rows = generate_order_number T (ts_date today) rows"
proof -
  have "length (string_of_nat (n + 1)) \<le> 4"
    using \<open>n < 9999\<close> by (intro length_string_of_nat) simp_all
  then have pad: "LPAD (string_of_nat (n + 1)) 4 CHR ''0'' = padStart (string_of_nat (n + 1)) 4 CHR ''0''"
    by (rule LPAD_eq_padStart)
  show db: "generate_order_number T (ts_date today) rows =
      to_char_YYYYMMDD (ts_date today) @ ''-'' @ padStart (string_of_nat (n + 1)) 4 CHR ''0''"
    unfolding generate_order_number_def Let_def n [symmetric] using pad by simp
  have same: "filter (\<lambda>r. o_restaurant_id r = T
        \<and> (case o_created_at r of None \<Rightarrow> False
            | Some t \<Rightarrow> ts_le \<lparr>ts_date = ts_date today, ts_usec = 0\<rparr> t
                \<and> ts_less t \<lparr>ts_date = ts_date today, ts_usec = 86399999000\<rparr>)) rows
      = filter (\<lambda>r. o_restaurant_id r = T
        \<and> map_option ts_date (o_created_at r) = Some (ts_date today)) rows"
    using late
    by (intro filter_cong refl) (auto simp: within_client_bounds list_all_iff split: option.splits)
  show "generateOrderNumber T today rows = generate_order_number T (ts_date today) rows"
    unfolding db generateOrderNumber_def Let_def same n [symmetric]
    by (simp add: iso_date_prefix [OF assms(1-3)])
qed

text \<open>
  C4: the two generators on the same table and date. First, one order of the day, created
  in the last millisecond before midnight (23:59:59.999500), and a call in the same
  millisecond after it (23:59:59.999700): the function of the store counts the order and
  gives \<open>0002\<close>, the client's query stops at 23:59:59.999 and gives \<open>0001\<close>, the
  number the order already has. Second, 9999 orders of the day: \<open>LPAD\<close> cuts
  \<open>10000\<close> to \<open>1000\<close>, the number of the thousandth order, where \<open>padStart\<close>
  keeps \<open>10000\<close>.
\<close>

theorem C4_generators_diverge:
  "generate_order_number 1 ex_date [ex_late_order] = ''20250811-0002''
   \<and> generateOrderNumber 1 ex_late_call [ex_late_order] = ''20250811-0001''
   \<and> generate_order_number 1 ex_date ex_busy_day = ''20250811-1000''
   \<and> generateOrderNumber 1 ex_t1 ex_busy_day = ''20250811-10000''"
proof -
  have late_db: "generate_order_number 1 ex_date [ex_late_order] = ''20250811-0002''"
    by (simp add: generate_order_number_def ex_late_order_def ex_order_def ex_date_text
        LPAD_def replicate_numeral string_of_nat.simps)
  have late_client: "generateOrderNumber 1 ex_late_call [ex_late_order] = ''20250811-0001''"
    by (simp add: generateOrderNumber_def ex_late_order_def ex_order_def ex_late_call_iso
        ex_late_call_date padStart_def replicate_numeral string_of_nat.simps ts_le_def
        ts_less_def date_less_def Let_def)
  have busy_db: "generate_order_number 1 ex_date ex_busy_day = ''20250811-1000''"
    by (simp add: generate_order_number_def ex_busy_day_def ex_order_def ex_t0_def
        ex_date_text filter_map comp_def LPAD_def string_of_nat.simps)
  have busy_client: "generateOrderNumber 1 ex_t1 ex_busy_day = ''20250811-10000''"
    by (simp add: generateOrderNumber_def ex_busy_day_def ex_order_def ex_t0_def ex_t1_iso
        ex_t1_date filter_map comp_def padStart_def string_of_nat.simps ts_le_def ts_less_def
        date_less_def Let_def)
  from late_db late_client busy_db busy_client show ?thesis by simp
qed

subsection \<open>Uniqueness of order numbers\<close>

text \<open>
  C9: \<open>order_number\<close> is \<open>UNIQUE\<close> over the whole table, and the generator counts the
  orders of one restaurant. In a table that holds the first order of restaurant 1 on
  2025-08-11, numbered \<open>20250811-0001\<close>, the first order of restaurant 2 on that day is
  given the same number, and its insert is rejected by the constraint: creating one
  order yields none. Two new orders of restaurant 1 whose triggers count on the same
  table, as they do in two transactions that do not see each other's row, are both given
  \<open>20250811-0002\<close>; once the first is stored, the second is rejected.
\<close>

theorem C9_order_numbers_collide:
  "o_order_number ex_order = Some ''20250811-0001''
   \<and> generate_order_number 2 ex_date (orders ex_db) = ''20250811-0001''
   \<and> sql_insert_order ex_t1 ex_other_restaurant_order ex_db =
       Inl (UniqueViolation ''orders_order_number_key'')
   \<and> set_order_number ex_date ex_second_order (orders ex_db) =
       ex_second_order\<lparr>o_order_number := Some ''20250811-0002''\<rparr>
   \<and> set_order_number ex_date ex_third_order (orders ex_db) =
       ex_third_order\<lparr>o_order_number := Some ''20250811-0002''\<rparr>
   \<and> sql_insert_order ex_t1 ex_second_order ex_db =
       Inr (ex_db\<lparr>orders :=
              [ex_order, ex_second_order\<lparr>o_order_number := Some ''20250811-0002''\<rparr>]\<rparr>)
   \<and> sql_insert_order ex_t1 (set_order_number ex_date ex_third_order (orders ex_db))
        (ex_db\<lparr>orders :=
           [ex_order, ex_second_order\<lparr>o_order_number := Some ''20250811-0002''\<rparr>]\<rparr>) =
       Inl (UniqueViolation ''orders_order_number_key'')"
proof -
  have first: "o_order_number ex_order = Some ''20250811-0001''"
    by (simp add: ex_order_def)
  have other: "generate_order_number 2 ex_date (orders ex_db) = ''20250811-0001''"
    by (simp add: generate_order_number_def ex_db_def ex_order_def ex_date_text LPAD_def
        string_of_nat.simps replicate_numeral)
  have own: "generate_order_number 1 ex_date (orders ex_db) = ''20250811-0002''"
    by (simp add: generate_order_number_def ex_db_def ex_order_def ex_t0_def ex_date_text
        LPAD_def string_of_nat.simps replicate_numeral)
  have rejected: "sql_insert_order ex_t1 ex_other_restaurant_order ex_db =
      Inl (UniqueViolation ''orders_order_number_key'')"
    using other
    by (simp add: sql_insert_order_def set_order_number_def ex_other_restaurant_order_def
        ex_t1_date) (simp add: ex_db_def ex_order_def)
  have second: "set_order_number ex_date ex_second_order (orders ex_db) =
      ex_second_order\<lparr>o_order_number := Some ''20250811-0002''\<rparr>"
    using own by (simp add: set_order_number_def ex_second_order_def)
  have third: "set_order_number ex_date ex_third_order (orders ex_db) =
      ex_third_order\<lparr>o_order_number := Some ''20250811-0002''\<rparr>"
    using own by (simp add: set_order_number_def ex_third_order_def)
  have stored: "sql_insert_order ex_t1 ex_second_order ex_db =
      Inr (ex_db\<lparr>orders :=
             [ex_order, ex_second_order\<lparr>o_order_number := Some ''20250811-0002''\<rparr>]\<rparr>)"
    unfolding sql_insert_order_def ex_t1_date second
    by (simp add: ex_db_def ex_order_def ex_second_order_def)
  have lost: "sql_insert_order ex_t1 (ex_third_order\<lparr>o_order_number := Some ''20250811-0002''\<rparr>)
        (ex_db\<lparr>orders :=
           [ex_order, ex_second_order\<lparr>o_order_number := Some ''20250811-0002''\<rparr>]\<rparr>) =
      Inl (UniqueViolation ''orders_order_number_key'')"
    by (simp add: sql_insert_order_def set_order_number_def ex_db_def ex_order_def
        ex_second_order_def ex_third_order_def)
  from first other rejected second third stored lost show ?thesis
    by (simp only: simp_thms)
qed

subsection \<open>Order items\<close>

text \<open>
  A row that the trigger function accepts satisfies the table constraint
  \<^verbatim>\<open>check_item_reference\<close>: the constraint never rejects a row on its own.
\<close>

lemma validate_order_item_check:
  "validate_order_item menu_items combo_meals rows NEW = Inr r \<Longrightarrow> check_item_reference r"
  by (auto simp: validate_order_item_def check_item_reference_def split: if_splits)

lemma validate_order_item_accepts:
  "validate_order_item menu_items combo_meals rows NEW = Inr r \<Longrightarrow> r = NEW"
  by (simp add: validate_order_item_def split: if_splits)

lemma before_write_order_item_accepts:
  "validate_order_item menu_items combo_meals rows NEW = Inr r \<Longrightarrow> 0 < oi_quantity NEW \<Longrightarrow>
   before_write_order_item menu_items combo_meals rows NEW = Inr NEW"
  using validate_order_item_check [of menu_items combo_meals rows NEW r]
    validate_order_item_accepts [of menu_items combo_meals rows NEW r]
  by (simp add: before_write_order_item_def)

text \<open>
  An update whose new row is rejected fails: with some error whenever such a row is in
  the table, and with the very exception of the trigger function when the row is the
  only one with the id, as the primary key has it.
\<close>

lemma sql_update_order_items_error:
  "r \<in> set items \<Longrightarrow> oi_id r = itemId \<Longrightarrow>
   validate_order_item menu_items combo_meals rows (st r) = Inl e \<Longrightarrow>
   isl (sql_update_order_items menu_items combo_meals rows itemId st items)"
  by (induction items) (auto simp: before_write_order_item_def split: sum.splits)

lemma sql_update_order_items_untouched:
  "filter (\<lambda>r. oi_id r = itemId) items = [] \<Longrightarrow>
   sql_update_order_items menu_items combo_meals rows itemId st items = Inr items"
  by (induction items) (auto split: if_splits)

lemma sql_update_order_items_exception:
  "filter (\<lambda>r. oi_id r = itemId) items = [old] \<Longrightarrow>
   validate_order_item menu_items combo_meals rows (st old) = Inl e \<Longrightarrow>
   sql_update_order_items menu_items combo_meals rows itemId st items = Inl e"
proof (induction items)
  case Nil
  then show ?case by simp
next
  case (Cons r rs)
  show ?case
  proof (cases "oi_id r = itemId")
    case True
    with Cons.prems(1) have "r = old" by simp
    with True Cons.prems(2) show ?thesis
      by (simp add: before_write_order_item_def)
  next
    case False
    with Cons.prems(1) have "filter (\<lambda>r. oi_id r = itemId) rs = [old]" by simp
    from Cons.IH [OF this Cons.prems(2)] False show ?thesis by simp
  qed
qed

lemma sql_update_order_items_stored:
  "filter (\<lambda>r. oi_id r = itemId) items = [old] \<Longrightarrow>
   before_write_order_item menu_items combo_meals rows (st old) = Inr (st old) \<Longrightarrow>
   sql_update_order_items menu_items combo_meals rows itemId st items =
     Inr (map (\<lambda>r. if oi_id r = itemId then st r else r) items)"
proof (induction items)
  case Nil
  then show ?case by simp
next
  case (Cons r rs)
  show ?case
  proof (cases "oi_id r = itemId")
    case True
    with Cons.prems(1) have r: "r = old" and rest: "filter (\<lambda>r. oi_id r = itemId) rs = []"
      by simp_all
    have "map (\<lambda>r. if oi_id r = itemId then st r else r) rs = rs"
      using rest by (induction rs) (auto split: if_splits)
    with True r Cons.prems(2) sql_update_order_items_untouched [OF rest] show ?thesis
      by simp
  next
    case False
    with Cons.prems(1) have "filter (\<lambda>r. oi_id r = itemId) rs = [old]" by simp
    from Cons.IH [OF this Cons.prems(2)] False show ?thesis by simp
  qed
qed

text \<open>
  C5: \<^verbatim>\<open>validate_order_item\<close> raises its first exception (the specification's
  \<open>ValidationError\<close>) when both references are set and when neither is; it raises
  the second or third exception (the specification's \<open>ReferentialError\<close>) when the one
  reference that is set names a menu item or combo meal whose restaurant differs from
  that of the order, and it accepts a row with one reference to an item of the order's
  restaurant. It accepts by returning the row unchanged, and it has no other result: it
  reads the tables and writes none. When it raises, the insert of the row fails with
  that exception and nothing is stored, and so does the update that would make a row
  of the table into it; when it accepts a row of positive quantity, the insert and the
  update store the row as it is.
\<close>

theorem C5_validate_order_item:
  "(oi_menu_item_id NEW \<noteq> None \<and> oi_combo_meal_id NEW \<noteq> None \<longrightarrow>
      validate_order_item menu_items combo_meals rows NEW =
        Inl (Exception
          ''Order item must reference either a menu item or combo meal, but not both''))
   \<and> (oi_menu_item_id NEW = None \<and> oi_combo_meal_id NEW = None \<longrightarrow>
      validate_order_item menu_items combo_meals rows NEW =
        Inl (Exception
          ''Order item must reference either a menu item or combo meal, but not both''))
   \<and> (oi_menu_item_id NEW = Some m \<and> oi_combo_meal_id NEW = None
        \<and> (\<forall>mi \<in> set menu_items. \<forall>ord \<in> set rows.
              mi_id mi = m \<and> o_id ord = oi_order_id NEW \<longrightarrow>
              mi_restaurant_id mi \<noteq> o_restaurant_id ord) \<longrightarrow>
      validate_order_item menu_items combo_meals rows NEW =
        Inl (Exception ''Menu item does not belong to the same restaurant as the order''))
   \<and> (oi_menu_item_id NEW = None \<and> oi_combo_meal_id NEW = Some k
        \<and> (\<forall>cm \<in> set combo_meals. \<forall>ord \<in> set rows.
              cm_id cm = k \<and> o_id ord = oi_order_id NEW \<longrightarrow>
              cm_restaurant_id cm \<noteq> o_restaurant_id ord) \<longrightarrow>
      validate_order_item menu_items combo_meals rows NEW =
        Inl (Exception ''Combo meal does not belong to the same restaurant as the order''))
   \<and> (oi_menu_item_id NEW = Some m \<and> oi_combo_meal_id NEW = None
        \<and> (\<exists>mi \<in> set menu_items. \<exists>ord \<in> set rows.
              mi_id mi = m \<and> o_id ord = oi_order_id NEW
              \<and> mi_restaurant_id mi = o_restaurant_id ord) \<longrightarrow>
      validate_order_item menu_items combo_meals rows NEW = Inr NEW)
   \<and> (oi_menu_item_id NEW = None \<and> oi_combo_meal_id NEW = Some k
        \<and> (\<exists>cm \<in> set combo_meals. \<exists>ord \<in> set rows.
              cm_id cm = k \<and> o_id ord = oi_order_id NEW
              \<and> cm_restaurant_id cm = o_restaurant_id ord) \<longrightarrow>
      validate_order_item menu_items combo_meals rows NEW = Inr NEW)
   \<and> (validate_order_item menu_items combo_meals rows NEW = Inr r \<longrightarrow> r = NEW)
   \<and> (validate_order_item menu_items combo_meals rows NEW = Inl e \<longrightarrow>
        sql_insert_order_item menu_items combo_meals rows NEW items = Inl e)
   \<and> (validate_order_item menu_items combo_meals rows NEW = Inr r \<and> 0 < oi_quantity NEW \<longrightarrow>
        sql_insert_order_item menu_items combo_meals rows NEW items = Inr (items @ [NEW]))
   \<and> (filter (\<lambda>x. oi_id x = itemId) items = [old]
        \<and> validate_order_item menu_items combo_meals rows (st old) = Inl e \<longrightarrow>
        sql_update_order_items menu_items combo_meals rows itemId st items = Inl e)
   \<and> (old \<in> set items \<and> oi_id old = itemId
        \<and> validate_order_item menu_items combo_meals rows (st old) = Inl e \<longrightarrow>
        isl (sql_update_order_items menu_items combo_meals rows itemId st items))
   \<and> (filter (\<lambda>x. oi_id x = itemId) items = [old]
        \<and> validate_order_item menu_items combo_meals rows (st old) = Inr r
        \<and> 0 < oi_quantity (st old) \<longrightarrow>
        sql_update_order_items menu_items combo_meals rows itemId st items =
          Inr (map (\<lambda>x. if oi_id x = itemId then st x else x) items))"
proof (intro conjI impI)
  show "validate_order_item menu_items combo_meals rows NEW = Inr r \<Longrightarrow> r = NEW"
    by (rule validate_order_item_accepts)
next
  show "validate_order_item menu_items combo_meals rows NEW = Inl e \<Longrightarrow>
      sql_insert_order_item menu_items combo_meals rows NEW items = Inl e"
    by (simp add: sql_insert_order_item_def before_write_order_item_def)
next
  assume "validate_order_item menu_items combo_meals rows NEW = Inr r \<and> 0 < oi_quantity NEW"
  then show "sql_insert_order_item menu_items combo_meals rows NEW items = Inr (items @ [NEW])"
    using before_write_order_item_accepts [of menu_items combo_meals rows NEW r]
    by (simp add: sql_insert_order_item_def)
next
  assume "filter (\<lambda>x. oi_id x = itemId) items = [old]
      \<and> validate_order_item menu_items combo_meals rows (st old) = Inl e"
  then show "sql_update_order_items menu_items combo_meals rows itemId st items = Inl e"
    using sql_update_order_items_exception by blast
next
  assume "old \<in> set items \<and> oi_id old = itemId
      \<and> validate_order_item menu_items combo_meals rows (st old) = Inl e"
  then show "isl (sql_update_order_items menu_items combo_meals rows itemId st items)"
    using sql_update_order_items_error by blast
next
  assume a: "filter (\<lambda>x. oi_id x = itemId) items = [old]
      \<and> validate_order_item menu_items combo_meals rows (st old) = Inr r
      \<and> 0 < oi_quantity (st old)"
  then have "before_write_order_item menu_items combo_meals rows (st old) = Inr (st old)"
    using before_write_order_item_accepts [of menu_items combo_meals rows "st old" r] by simp
  with a show "sql_update_order_items menu_items combo_meals rows itemId st items =
      Inr (map (\<lambda>x. if oi_id x = itemId then st x else x) items)"
    using sql_update_order_items_stored by blast
qed (auto simp: validate_order_item_def list_ex_iff)

text \<open>
  An order of restaurant 1, a menu item and a combo meal of restaurant 2, a menu item of
  restaurant 1; an insert and an update that are rejected, with the exception of the
  trigger function, and an insert and an update that are stored.
\<close>

theorem C5_validate_order_item_witness:
  "validate_order_item ex_menu_items ex_combo_meals [ex_order]
      (ex_item\<lparr>oi_combo_meal_id := Some 20\<rparr>) =
     Inl (Exception ''Order item must reference either a menu item or combo meal, but not both'')
   \<and> validate_order_item ex_menu_items ex_combo_meals [ex_order]
      (ex_item\<lparr>oi_menu_item_id := None\<rparr>) =
     Inl (Exception ''Order item must reference either a menu item or combo meal, but not both'')
   \<and> validate_order_item ex_menu_items ex_combo_meals [ex_order]
      (ex_item\<lparr>oi_menu_item_id := Some 10\<rparr>) =
     Inl (Exception ''Menu item does not belong to the same restaurant as the order'')
   \<and> validate_order_item ex_menu_items ex_combo_meals [ex_order]
      (ex_item\<lparr>oi_menu_item_id := None, oi_combo_meal_id := Some 20\<rparr>) =
     Inl (Exception ''Combo meal does not belong to the same restaurant as the order'')
   \<and> validate_order_item ex_menu_items ex_combo_meals [ex_order] ex_item = Inr ex_item
   \<and> sql_insert_order_item ex_menu_items ex_combo_meals [ex_order]
      (ex_item\<lparr>oi_menu_item_id := Some 10\<rparr>) [] =
     Inl (Exception ''Menu item does not belong to the same restaurant as the order'')
   \<and> sql_insert_order_item ex_menu_items ex_combo_meals [ex_order] ex_item [] = Inr [ex_item]
   \<and> sql_update_order_items ex_menu_items ex_combo_meals [ex_order] 30
        (\<lambda>r. r\<lparr>oi_menu_item_id := Some 10\<rparr>) [ex_item] =
     Inl (Exception ''Menu item does not belong to the same restaurant as the order'')
   \<and> sql_update_order_items ex_menu_items ex_combo_meals [ex_order] 30
        (\<lambda>r. r\<lparr>oi_combo_meal_id := Some 20\<rparr>) [ex_item] =
     Inl (Exception ''Order item must reference either a menu item or combo meal, but not both'')
   \<and> sql_update_order_items ex_menu_items ex_combo_meals [ex_order] 30
        (\<lambda>r. r\<lparr>oi_quantity := 3\<rparr>) [ex_item] = Inr [ex_item\<lparr>oi_quantity := 3\<rparr>]"
proof -
  let ?v = "validate_order_item ex_menu_items ex_combo_meals [ex_order]"
  let ?both = "Exception
    ''Order item must reference either a menu item or combo meal, but not both''"
  let ?menu = "Exception ''Menu item does not belong to the same restaurant as the order''"
  let ?combo = "Exception ''Combo meal does not belong to the same restaurant as the order''"
  note defs = ex_menu_items_def ex_combo_meals_def ex_order_def ex_item_def
  note c2 = conjunct2
  have both: "?v (ex_item\<lparr>oi_combo_meal_id := Some 20\<rparr>) = Inl ?both"
    by (rule C5_validate_order_item [THEN conjunct1, THEN mp]) (simp add: defs)
  have neither: "?v (ex_item\<lparr>oi_menu_item_id := None\<rparr>) = Inl ?both"
    by (rule C5_validate_order_item [THEN c2, THEN conjunct1, THEN mp]) (simp add: defs)
  have menu: "?v (ex_item\<lparr>oi_menu_item_id := Some 10\<rparr>) = Inl ?menu"
    by (rule C5_validate_order_item [where m = 10, THEN c2, THEN c2, THEN conjunct1, THEN mp])
       (simp add: defs)
  have combo: "?v (ex_item\<lparr>oi_menu_item_id := None, oi_combo_meal_id := Some 20\<rparr>) = Inl ?combo"
    by (rule C5_validate_order_item
          [where k = 20, THEN c2, THEN c2, THEN c2, THEN conjunct1, THEN mp])
       (simp add: defs)
  have accept: "?v ex_item = Inr ex_item"
    by (rule C5_validate_order_item
          [where m = 11, THEN c2, THEN c2, THEN c2, THEN c2, THEN conjunct1, THEN mp])
       (simp add: defs)
  have id: "oi_id ex_item = 30" and quantity_pos: "0 < oi_quantity ex_item"
    by (simp_all add: ex_item_def)
  have insert_rejected: "sql_insert_order_item ex_menu_items ex_combo_meals [ex_order]
      (ex_item\<lparr>oi_menu_item_id := Some 10\<rparr>) [] = Inl ?menu"
    by (rule C5_validate_order_item
          [THEN c2, THEN c2, THEN c2, THEN c2, THEN c2, THEN c2, THEN c2, THEN conjunct1,
           THEN mp])
       (rule menu)
  have insert_stored:
    "sql_insert_order_item ex_menu_items ex_combo_meals [ex_order] ex_item [] = Inr ([] @ [ex_item])"
    by (rule C5_validate_order_item
          [where r = ex_item, THEN c2, THEN c2, THEN c2, THEN c2, THEN c2, THEN c2, THEN c2,
           THEN c2, THEN conjunct1, THEN mp])
       (simp add: accept quantity_pos)
  have update_menu: "sql_update_order_items ex_menu_items ex_combo_meals [ex_order] 30
      (\<lambda>r. r\<lparr>oi_menu_item_id := Some 10\<rparr>) [ex_item] = Inl ?menu"
    by (rule C5_validate_order_item
          [where old = ex_item, THEN c2, THEN c2, THEN c2, THEN c2, THEN c2, THEN c2, THEN c2,
           THEN c2, THEN c2, THEN conjunct1, THEN mp])
       (simp add: id menu)
  have update_both: "sql_update_order_items ex_menu_items ex_combo_meals [ex_order] 30
      (\<lambda>r. r\<lparr>oi_combo_meal_id := Some 20\<rparr>) [ex_item] = Inl ?both"
    by (rule C5_validate_order_item
          [where old = ex_item, THEN c2, THEN c2, THEN c2, THEN c2, THEN c2, THEN c2, THEN c2,
           THEN c2, THEN c2, THEN conjunct1, THEN mp])
       (simp add: id both)
  have quantity: "?v (ex_item\<lparr>oi_quantity := 3\<rparr>) = Inr (ex_item\<lparr>oi_quantity := 3\<rparr>)"
    by (simp add: validate_order_item_def defs)
  have update_stored: "sql_update_order_items ex_menu_items ex_combo_meals [ex_order] 30
      (\<lambda>r. r\<lparr>oi_quantity := 3\<rparr>) [ex_item]
      = Inr (map (\<lambda>x. if oi_id x = 30 then x\<lparr>oi_quantity := 3\<rparr> else x) [ex_item])"
    by (rule C5_validate_order_item
          [where old = ex_item and r = "ex_item\<lparr>oi_quantity := 3\<rparr>", THEN c2, THEN c2,
           THEN c2, THEN c2, THEN c2, THEN c2, THEN c2, THEN c2, THEN c2, THEN c2, THEN c2,
           THEN mp])
       (simp add: id quantity)
  from update_stored have update_stored':
    "sql_update_order_items ex_menu_items ex_combo_meals [ex_order] 30
      (\<lambda>r. r\<lparr>oi_quantity := 3\<rparr>) [ex_item] = Inr [ex_item\<lparr>oi_quantity := 3\<rparr>]"
    by (simp add: id)
  from both neither menu combo accept insert_rejected insert_stored update_menu update_both
    update_stored'
  show ?thesis by simp
qed

subsection \<open>Business hours\<close>

text \<open>
  The function of the store follows the rule of the specification at every input: closed
  without a row for the centre and the day, closed when \<open>is_closed\<close> is set, closed when
  a time is null, otherwise open within the span, both ends included, an overnight span
  being the union of its two parts.
\<close>

lemma is_revenue_center_open_iff:
  "is_revenue_center_open rows c t \<longleftrightarrow>
     (case find (\<lambda>b. bh_revenue_center_id b = c \<and> bh_day_of_week b = ct_day_of_week t) rows of
        None \<Rightarrow> False
      | Some b \<Rightarrow>
          bh_is_closed b \<noteq> Some True
          \<and> (\<exists>op cl. bh_open_time b = Some op \<and> bh_close_time b = Some cl
                \<and> (if cl < op then op \<le> ct_time t \<or> ct_time t \<le> cl
                    else op \<le> ct_time t \<and> ct_time t \<le> cl)))"
  by (auto simp: is_revenue_center_open_def Let_def split: option.splits)

lemma time_out_examples:
  "time_out 32400000000 = ''09:00:00''" "time_out 79200000000 = ''22:00:00''"
  "time_out 7200000000 = ''02:00:00''" "time_out 32400500000 = ''09:00:00.5''"
  by (simp_all add: time_out_def padStart_def string_of_nat.simps replicate_numeral)

lemma current_time_examples:
  "take 5 (toTimeString \<lparr>ct_day_of_week = d, ct_time = 32400000000\<rparr>) = ''09:00''"
  "take 5 (toTimeString \<lparr>ct_day_of_week = d, ct_time = 79230000000\<rparr>) = ''22:00''"
  "take 5 (toTimeString \<lparr>ct_day_of_week = d, ct_time = 84600000000\<rparr>) = ''23:30''"
  "take 5 (toTimeString \<lparr>ct_day_of_week = d, ct_time = 36000000000\<rparr>) = ''10:00''"
  "take 5 (toTimeString \<lparr>ct_day_of_week = d, ct_time = 7200000000\<rparr>) = ''02:00''"
  by (simp_all add: toTimeString_def padStart_def string_of_nat.simps replicate_numeral)

text \<open>
  The example of the specification, open 22:00 to 02:00 on Monday: both implementations
  answer open at 23:30, closed at 10:00 and open at 02:00.
\<close>

lemma overnight_example:
  "is_revenue_center_open ex_hours_night 3 \<lparr>ct_day_of_week = 1, ct_time = 84600000000\<rparr>"
  "\<not> is_revenue_center_open ex_hours_night 3 \<lparr>ct_day_of_week = 1, ct_time = 36000000000\<rparr>"
  "is_revenue_center_open ex_hours_night 3 \<lparr>ct_day_of_week = 1, ct_time = 7200000000\<rparr>"
  "isRevenueCenterOpen ex_hours_night 3 \<lparr>ct_day_of_week = 1, ct_time = 84600000000\<rparr>"
  "\<not> isRevenueCenterOpen ex_hours_night 3 \<lparr>ct_day_of_week = 1, ct_time = 36000000000\<rparr>"
  "isRevenueCenterOpen ex_hours_night 3 \<lparr>ct_day_of_week = 1, ct_time = 7200000000\<rparr>"
  by (simp_all add: is_revenue_center_open_def isRevenueCenterOpen_def ex_hours_night_def
      time_out_examples current_time_examples Let_def)

text \<open>
  C6: hours 09:00 to 22:00 on a Monday. At 09:00:00, the inclusive opening boundary, the
  function of the store answers open and the client's method closed, since the text
  \<open>09:00\<close> is smaller than the text \<open>09:00:00\<close>. At 22:00:30, after the closing
  time, the store answers closed and the client open, since the seconds are cut off.
\<close>

theorem C6_client_boundaries:
  "is_revenue_center_open ex_hours_day 3 \<lparr>ct_day_of_week = 1, ct_time = 32400000000\<rparr> = True
   \<and> isRevenueCenterOpen ex_hours_day 3 \<lparr>ct_day_of_week = 1, ct_time = 32400000000\<rparr> = False
   \<and> is_revenue_center_open ex_hours_day 3 \<lparr>ct_day_of_week = 1, ct_time = 79230000000\<rparr> = False
   \<and> isRevenueCenterOpen ex_hours_day 3 \<lparr>ct_day_of_week = 1, ct_time = 79230000000\<rparr> = True"
  by (simp add: is_revenue_center_open_def isRevenueCenterOpen_def ex_hours_day_def
      time_out_examples current_time_examples Let_def)

text \<open>The two answers differ at the opening boundary and after the closing time.\<close>

theorem C6_client_boundaries_witness:
  "isRevenueCenterOpen ex_hours_day 3 \<lparr>ct_day_of_week = 1, ct_time = 32400000000\<rparr>
     \<noteq> is_revenue_center_open ex_hours_day 3 \<lparr>ct_day_of_week = 1, ct_time = 32400000000\<rparr>
   \<and> isRevenueCenterOpen ex_hours_day 3 \<lparr>ct_day_of_week = 1, ct_time = 79230000000\<rparr>
     \<noteq> is_revenue_center_open ex_hours_day 3 \<lparr>ct_day_of_week = 1, ct_time = 79230000000\<rparr>"
  using C6_client_boundaries by simp

subsection \<open>Provisioning of kitchen owners\<close>

text \<open>
  C8 (as stated, refuted): an owner record with the email exists and no account of the
  identity provider does. The handler answers 409 and leaves everything as it is: no
  account is created and nothing is linked.
\<close>

theorem C8_existing_owner_counterexample:
  "auth_users ex_backend = []
   \<and> create_kitchen_owner ex_env ex_request ex_backend =
      (\<lparr>status = 409, body = ErrorBody ''Kitchen owner with this email already exists''\<rparr>,
       ex_backend)"
  by (simp add: create_kitchen_owner_def provision_def missing_required_field_def
      falsy_text_def falsy_number_def single_def ex_backend_def ex_owner_def ex_request_def ex_request_data_def)

text \<open>
  C8 (amended): a \<open>POST\<close> with all required fields whose email is that of an existing
  owner record is answered by 409 \<open>Kitchen owner with this email already exists\<close>
  and changes nothing: no duplicate owner row, no account of the identity provider, no
  link.
\<close>

theorem C8_existing_owner_conflict:
  assumes "req_method req = ''POST''"
    and "req_json req = Some requestData"
    and "missing_required_field requestData = None"
    and "email requestData = Some e"
    and "filter (\<lambda>r. ko_email r = e) (kitchen_owners s) = [owner]"
  shows "create_kitchen_owner env req s =
     (\<lparr>status = 409, body = ErrorBody ''Kitchen owner with this email already exists''\<rparr>, s)"
proof -
  from assms(3) obtain n plan pay amount expires where
    "full_name requestData = Some n" "subscription_plan requestData = Some plan"
    "payment_id requestData = Some pay" "subscription_amount requestData = Some amount"
    "subscription_expires_at requestData = Some expires"
    by (auto simp: missing_required_field_def falsy_text_def falsy_number_def split: if_splits)
  with assms show ?thesis
    by (simp add: create_kitchen_owner_def provision_def single_def)
qed

text \<open>
  The request of the counterexample, through the theorem.
\<close>

theorem C8_existing_owner_conflict_witness:
  "create_kitchen_owner ex_env ex_request ex_backend =
      (\<lparr>status = 409, body = ErrorBody ''Kitchen owner with this email already exists''\<rparr>,
       ex_backend)
   \<and> kitchen_owners (snd (create_kitchen_owner ex_env ex_request ex_backend)) = [ex_owner]
   \<and> auth_users (snd (create_kitchen_owner ex_env ex_request ex_backend)) = []"
proof -
  have m: "req_method ex_request = ''POST''"
    by (simp add: ex_request_def)
  have j: "req_json ex_request = Some ex_request_data"
    by (simp add: ex_request_def)
  have r: "missing_required_field ex_request_data = None"
    by (simp add: ex_request_data_def missing_required_field_def falsy_text_def
        falsy_number_def)
  have e: "email ex_request_data = Some ''chef@example.com''"
    by (simp add: ex_request_data_def)
  have f: "filter (\<lambda>r. ko_email r = ''chef@example.com'') (kitchen_owners ex_backend) = [ex_owner]"
    by (simp add: ex_backend_def ex_owner_def)
  have "create_kitchen_owner ex_env ex_request ex_backend =
      (\<lparr>status = 409, body = ErrorBody ''Kitchen owner with this email already exists''\<rparr>,
       ex_backend)"
    by (rule C8_existing_owner_conflict [OF m j r e f])
  then show ?thesis by (simp add: ex_backend_def)
qed

end
